theory Spec2Isabelle
  imports Complex_Main "HOL-Library.Log_Nat"
begin

section \<open>Data model\<close>

text \<open>
  The tables of \<^verbatim>\<open>supabase/migrations/20251119074224_....sql\<close>, one record per row.
  A \<^verbatim>\<open>UUID\<close> is an opaque token and a timestamp an instant; both are numbers here.
  A nullable column is an \<open>option\<close>, a \<^verbatim>\<open>NOT NULL\<close> column is not. Field names carry
  the table's prefix, since two records cannot share a field name.
\<close>

type_synonym uuid = nat
type_synonym timestamptz = nat

datatype app_role = Admin | Lecturer | Student

text \<open>
  Modelled from the spec: the principal that \<^verbatim>\<open>auth.uid()\<close> and \<^verbatim>\<open>has_role\<close> speak
  about. Both functions, the \<^verbatim>\<open>user_roles\<close> table and the \<^verbatim>\<open>app_role\<close> type are
  created by an earlier migration that is not among the sources. The spec's Identity
  Context resolves a credential to one \<open>(principal_id, role)\<close> pair, one role per
  principal.
\<close>

record principal =
  pid :: uuid
  prole :: app_role

definition auth_uid :: "principal \<Rightarrow> uuid" where
  "auth_uid p = pid p"

definition has_role :: "principal \<Rightarrow> app_role \<Rightarrow> bool" where
  "has_role p r = (prole p = r)"

text \<open>
  Modelled from the spec: the \<^verbatim>\<open>courses\<close> table, created by an earlier migration that is
  not among the sources; this migration only adds \<^verbatim>\<open>lecturer_id\<close>.
\<close>

record course =
  crs_id :: uuid
  crs_title :: string
  crs_description :: "string option"
  crs_created_by :: uuid
  crs_lecturer_id :: "uuid option"

record enrollment =
  enr_id :: uuid
  enr_student_id :: uuid
  enr_course_id :: uuid
  enr_enrolled_at :: timestamptz
  enr_status :: string

record assignment =
  asg_id :: uuid
  asg_course_id :: uuid
  asg_title :: string
  asg_description :: "string option"
  asg_due_date :: timestamptz
  asg_max_grade :: int
  asg_created_by :: uuid
  asg_created_at :: timestamptz
  asg_updated_at :: timestamptz

record submission =
  sub_id :: uuid
  sub_assignment_id :: uuid
  sub_student_id :: uuid
  sub_content :: string
  sub_file_url :: "string option"
  sub_submitted_at :: timestamptz
  sub_grade :: "int option"
  sub_feedback :: "string option"
  sub_graded_at :: "timestamptz option"
  sub_graded_by :: "uuid option"

record notification =
  ntf_id :: uuid
  ntf_user_id :: uuid
  ntf_type :: string
  ntf_title :: string
  ntf_message :: string
  ntf_read :: bool
  ntf_created_at :: timestamptz

text \<open>
  The store: the five tables, and the ids of \<^verbatim>\<open>auth.users\<close>, the platform's table of
  accounts that the \<^verbatim>\<open>REFERENCES auth.users(id)\<close> columns point into.
\<close>

record db =
  users :: "uuid list"
  courses :: "course list"
  enrollments :: "enrollment list"
  assignments :: "assignment list"
  submissions :: "submission list"
  notifications :: "notification list"

text \<open>
  What the store answers to a statement that it refuses, by SQLSTATE:
  \<open>InsufficientPrivilege\<close> (42501) is a new row that violates row-level security,
  \<open>UniqueViolation\<close> (23505) a duplicate key of a \<^verbatim>\<open>PRIMARY KEY\<close> or \<^verbatim>\<open>UNIQUE\<close>
  constraint, \<open>ForeignKeyViolation\<close> (23503) a reference to a missing row,
  \<open>NumericValueOutOfRange\<close> (22003) a number that does not fit the column's type.
  The spec calls the first three \<open>Forbidden\<close>, \<open>Conflict\<close> and \<open>NotFound\<close>.
\<close>

datatype pg_error =
  InsufficientPrivilege | UniqueViolation | ForeignKeyViolation | NumericValueOutOfRange

text \<open>\<^verbatim>\<open>INTEGER\<close> is a signed 32-bit number.\<close>

definition int4 :: "int \<Rightarrow> bool" where
  "int4 g = (- (2 ^ 31) \<le> g \<and> g < 2 ^ 31)"

section \<open>Row-level security policies\<close>

text \<open>
  Every table has row-level security enabled. All policies are permissive, so a
  command on a row is allowed when one policy for that command (or a \<^verbatim>\<open>FOR ALL\<close>
  policy) allows it, and refused when there is none. \<^verbatim>\<open>USING\<close> is evaluated on
  existing rows, \<^verbatim>\<open>WITH CHECK\<close> on new ones; a policy without \<^verbatim>\<open>WITH CHECK\<close> uses
  its \<^verbatim>\<open>USING\<close> expression for both. A sub-select inside a policy reads its table
  through that table's own \<^verbatim>\<open>SELECT\<close> policies.
\<close>

text \<open>
  Modelled from the spec: the \<^verbatim>\<open>SELECT\<close> policy of \<^verbatim>\<open>courses\<close>, which is part of the
  missing earlier migration. The spec leaves reading the course catalogue
  unrestricted.
\<close>

definition courses_select :: "db \<Rightarrow> principal \<Rightarrow> course \<Rightarrow> bool" where
  "courses_select d p c = True"

definition visible_courses :: "db \<Rightarrow> principal \<Rightarrow> course list" where
  "visible_courses d p = filter (courses_select d p) (courses d)"

text \<open>\<^verbatim>\<open>SELECT id FROM public.courses WHERE created_by = auth.uid()\<close>\<close>

definition own_course_ids :: "db \<Rightarrow> principal \<Rightarrow> uuid list" where
  "own_course_ids d p =
     map crs_id (filter (\<lambda>c. crs_created_by c = auth_uid p) (visible_courses d p))"

subsection \<open>enrollments\<close>

definition students_can_view_their_own_enrollments ::
  "db \<Rightarrow> principal \<Rightarrow> enrollment \<Rightarrow> bool" where
  "students_can_view_their_own_enrollments d p e = (auth_uid p = enr_student_id e)"

definition students_can_enroll_in_courses :: "db \<Rightarrow> principal \<Rightarrow> enrollment \<Rightarrow> bool" where
  "students_can_enroll_in_courses d p e =
     (auth_uid p = enr_student_id e \<and> has_role p Student)"

definition lecturers_can_view_enrollments_for_their_courses ::
  "db \<Rightarrow> principal \<Rightarrow> enrollment \<Rightarrow> bool" where
  "lecturers_can_view_enrollments_for_their_courses d p e =
     (has_role p Lecturer \<and> enr_course_id e \<in> set (own_course_ids d p))"

definition admins_can_manage_all_enrollments :: "db \<Rightarrow> principal \<Rightarrow> enrollment \<Rightarrow> bool" where
  "admins_can_manage_all_enrollments d p e = has_role p Admin"

definition enrollments_select :: "db \<Rightarrow> principal \<Rightarrow> enrollment \<Rightarrow> bool" where
  "enrollments_select d p e =
     (students_can_view_their_own_enrollments d p e
      \<or> lecturers_can_view_enrollments_for_their_courses d p e
      \<or> admins_can_manage_all_enrollments d p e)"

definition enrollments_insert_check :: "db \<Rightarrow> principal \<Rightarrow> enrollment \<Rightarrow> bool" where
  "enrollments_insert_check d p e =
     (students_can_enroll_in_courses d p e \<or> admins_can_manage_all_enrollments d p e)"

definition visible_enrollments :: "db \<Rightarrow> principal \<Rightarrow> enrollment list" where
  "visible_enrollments d p = filter (enrollments_select d p) (enrollments d)"

subsection \<open>assignments\<close>

text \<open>
  \<^verbatim>\<open>course_id IN (SELECT course_id FROM public.enrollments WHERE student_id = auth.uid())\<close>:
  no role is asked for and \<^verbatim>\<open>status\<close> is not read.
\<close>

definition students_can_view_assignments_for_enrolled_courses ::
  "db \<Rightarrow> principal \<Rightarrow> assignment \<Rightarrow> bool" where
  "students_can_view_assignments_for_enrolled_courses d p a =
     (asg_course_id a \<in> set (map enr_course_id
        (filter (\<lambda>e. enr_student_id e = auth_uid p) (visible_enrollments d p))))"

definition lecturers_can_manage_their_course_assignments ::
  "db \<Rightarrow> principal \<Rightarrow> assignment \<Rightarrow> bool" where
  "lecturers_can_manage_their_course_assignments d p a =
     (has_role p Lecturer \<and> asg_course_id a \<in> set (own_course_ids d p))"

definition admins_can_manage_all_assignments :: "db \<Rightarrow> principal \<Rightarrow> assignment \<Rightarrow> bool" where
  "admins_can_manage_all_assignments d p a = has_role p Admin"

definition assignments_select :: "db \<Rightarrow> principal \<Rightarrow> assignment \<Rightarrow> bool" where
  "assignments_select d p a =
     (students_can_view_assignments_for_enrolled_courses d p a
      \<or> lecturers_can_manage_their_course_assignments d p a
      \<or> admins_can_manage_all_assignments d p a)"

definition visible_assignments :: "db \<Rightarrow> principal \<Rightarrow> assignment list" where
  "visible_assignments d p = filter (assignments_select d p) (assignments d)"

subsection \<open>submissions\<close>

definition students_can_view_their_own_submissions ::
  "db \<Rightarrow> principal \<Rightarrow> submission \<Rightarrow> bool" where
  "students_can_view_their_own_submissions d p s = (auth_uid p = sub_student_id s)"

definition students_can_create_their_own_submissions ::
  "db \<Rightarrow> principal \<Rightarrow> submission \<Rightarrow> bool" where
  "students_can_create_their_own_submissions d p s =
     (auth_uid p = sub_student_id s \<and> has_role p Student)"

definition students_can_update_their_own_ungraded_submissions ::
  "db \<Rightarrow> principal \<Rightarrow> submission \<Rightarrow> bool" where
  "students_can_update_their_own_ungraded_submissions d p s =
     (auth_uid p = sub_student_id s \<and> sub_grade s = None)"

text \<open>
  \<^verbatim>\<open>SELECT a.id FROM public.assignments a JOIN public.courses c ON a.course_id = c.id
  WHERE c.created_by = auth.uid()\<close>
\<close>

definition own_assignment_ids :: "db \<Rightarrow> principal \<Rightarrow> uuid list" where
  "own_assignment_ids d p =
     concat (map (\<lambda>a. map (\<lambda>c. asg_id a)
        (filter (\<lambda>c. asg_course_id a = crs_id c \<and> crs_created_by c = auth_uid p)
           (visible_courses d p)))
        (visible_assignments d p))"

definition lecturers_can_view_submissions_for_their_assignments ::
  "db \<Rightarrow> principal \<Rightarrow> submission \<Rightarrow> bool" where
  "lecturers_can_view_submissions_for_their_assignments d p s =
     (has_role p Lecturer \<and> sub_assignment_id s \<in> set (own_assignment_ids d p))"

definition lecturers_can_grade_submissions_for_their_assignments ::
  "db \<Rightarrow> principal \<Rightarrow> submission \<Rightarrow> bool" where
  "lecturers_can_grade_submissions_for_their_assignments d p s =
     (has_role p Lecturer \<and> sub_assignment_id s \<in> set (own_assignment_ids d p))"

definition admins_can_manage_all_submissions :: "db \<Rightarrow> principal \<Rightarrow> submission \<Rightarrow> bool" where
  "admins_can_manage_all_submissions d p s = has_role p Admin"

definition submissions_select :: "db \<Rightarrow> principal \<Rightarrow> submission \<Rightarrow> bool" where
  "submissions_select d p s =
     (students_can_view_their_own_submissions d p s
      \<or> lecturers_can_view_submissions_for_their_assignments d p s
      \<or> admins_can_manage_all_submissions d p s)"

definition submissions_insert_check :: "db \<Rightarrow> principal \<Rightarrow> submission \<Rightarrow> bool" where
  "submissions_insert_check d p s =
     (students_can_create_their_own_submissions d p s
      \<or> admins_can_manage_all_submissions d p s)"

text \<open>
  The three \<^verbatim>\<open>UPDATE\<close> policies have no \<^verbatim>\<open>WITH CHECK\<close>, so the same expression is
  the \<^verbatim>\<open>USING\<close> test of the stored row and the check of the row as updated.
\<close>

definition submissions_update_policies :: "db \<Rightarrow> principal \<Rightarrow> submission \<Rightarrow> bool" where
  "submissions_update_policies d p s =
     (students_can_update_their_own_ungraded_submissions d p s
      \<or> lecturers_can_grade_submissions_for_their_assignments d p s
      \<or> admins_can_manage_all_submissions d p s)"

definition visible_submissions :: "db \<Rightarrow> principal \<Rightarrow> submission list" where
  "visible_submissions d p = filter (submissions_select d p) (submissions d)"

subsection \<open>notifications\<close>

definition users_can_view_their_own_notifications ::
  "db \<Rightarrow> principal \<Rightarrow> notification \<Rightarrow> bool" where
  "users_can_view_their_own_notifications d p n = (auth_uid p = ntf_user_id n)"

definition users_can_update_their_own_notifications ::
  "db \<Rightarrow> principal \<Rightarrow> notification \<Rightarrow> bool" where
  "users_can_update_their_own_notifications d p n = (auth_uid p = ntf_user_id n)"

definition notifications_select :: "db \<Rightarrow> principal \<Rightarrow> notification \<Rightarrow> bool" where
  "notifications_select d p n = users_can_view_their_own_notifications d p n"

definition notifications_update_policies :: "db \<Rightarrow> principal \<Rightarrow> notification \<Rightarrow> bool" where
  "notifications_update_policies d p n = users_can_update_their_own_notifications d p n"

text \<open>The table has no \<^verbatim>\<open>INSERT\<close> and no \<^verbatim>\<open>FOR ALL\<close> policy: no new row passes.\<close>

definition notifications_insert_check :: "db \<Rightarrow> principal \<Rightarrow> notification \<Rightarrow> bool" where
  "notifications_insert_check d p n = False"

section \<open>Statements against the store\<close>

text \<open>
  A \<^verbatim>\<open>SELECT\<close> returns the rows that pass the table's \<^verbatim>\<open>SELECT\<close> policies; a row
  that fails them is left out of the result and raises nothing. The response of the
  client is \<^verbatim>\<open>{ data, error }\<close>, here a sum with the error on the left.
\<close>

definition select_assignments :: "db \<Rightarrow> principal \<Rightarrow> pg_error + assignment list" where
  "select_assignments d p = Inr (visible_assignments d p)"

text \<open>
  An \<^verbatim>\<open>INSERT\<close> without \<^verbatim>\<open>RETURNING\<close>. The row is given with its defaults filled
  in. A number that does not fit its column is refused first, when the values are
  read. Then the new row is checked against the insert policies, then against the
  primary key and the \<^verbatim>\<open>UNIQUE\<close> constraint, and last against the references to
  other tables.
\<close>

definition insert_enrollment :: "db \<Rightarrow> principal \<Rightarrow> enrollment \<Rightarrow> pg_error + db" where
  "insert_enrollment d p e =
     (if \<not> enrollments_insert_check d p e then Inl InsufficientPrivilege
      else if enr_id e \<in> set (map enr_id (enrollments d)) then Inl UniqueViolation
      else if (enr_student_id e, enr_course_id e)
                \<in> set (map (\<lambda>x. (enr_student_id x, enr_course_id x)) (enrollments d))
        then Inl UniqueViolation
      else if enr_course_id e \<notin> set (map crs_id (courses d)) then Inl ForeignKeyViolation
      else if enr_student_id e \<notin> set (users d) then Inl ForeignKeyViolation
      else Inr (d\<lparr>enrollments := enrollments d @ [e]\<rparr>))"

text \<open>A nullable \<^verbatim>\<open>INTEGER\<close> and a nullable reference to \<^verbatim>\<open>auth.users\<close>.\<close>

definition int4_or_null :: "int option \<Rightarrow> bool" where
  "int4_or_null v = (case v of None \<Rightarrow> True | Some g \<Rightarrow> int4 g)"

definition user_or_null :: "db \<Rightarrow> uuid option \<Rightarrow> bool" where
  "user_or_null d v = (case v of None \<Rightarrow> True | Some u \<Rightarrow> u \<in> set (users d))"

definition insert_submission :: "db \<Rightarrow> principal \<Rightarrow> submission \<Rightarrow> pg_error + db" where
  "insert_submission d p s =
     (if \<not> int4_or_null (sub_grade s) then Inl NumericValueOutOfRange
      else if \<not> submissions_insert_check d p s then Inl InsufficientPrivilege
      else if sub_id s \<in> set (map sub_id (submissions d)) then Inl UniqueViolation
      else if (sub_assignment_id s, sub_student_id s)
                \<in> set (map (\<lambda>x. (sub_assignment_id x, sub_student_id x)) (submissions d))
        then Inl UniqueViolation
      else if sub_assignment_id s \<notin> set (map asg_id (assignments d))
        then Inl ForeignKeyViolation
      else if sub_student_id s \<notin> set (users d) then Inl ForeignKeyViolation
      else if \<not> user_or_null d (sub_graded_by s) then Inl ForeignKeyViolation
      else Inr (d\<lparr>submissions := submissions d @ [s]\<rparr>))"

definition insert_notification :: "db \<Rightarrow> principal \<Rightarrow> notification \<Rightarrow> pg_error + db" where
  "insert_notification d p n =
     (if \<not> notifications_insert_check d p n then Inl InsufficientPrivilege
      else if ntf_id n \<in> set (map ntf_id (notifications d)) then Inl UniqueViolation
      else if ntf_user_id n \<notin> set (users d) then Inl ForeignKeyViolation
      else Inr (d\<lparr>notifications := notifications d @ [n]\<rparr>))"

text \<open>
  The object passed to \<^verbatim>\<open>update\<close> on \<^verbatim>\<open>submissions\<close>: a column that the object names
  gets the value given (\<open>Some v\<close>), a column it does not name keeps its value
  (\<open>None\<close>). A nullable column takes \<^verbatim>\<open>null\<close> as a value, \<open>Some None\<close>.
\<close>

record submission_patch =
  set_id :: "uuid option"
  set_assignment_id :: "uuid option"
  set_student_id :: "uuid option"
  set_content :: "string option"
  set_file_url :: "string option option"
  set_submitted_at :: "timestamptz option"
  set_grade :: "int option option"
  set_feedback :: "string option option"
  set_graded_at :: "timestamptz option option"
  set_graded_by :: "uuid option option"

definition no_change :: submission_patch where
  "no_change = \<lparr>set_id = None, set_assignment_id = None, set_student_id = None,
                set_content = None, set_file_url = None, set_submitted_at = None,
                set_grade = None, set_feedback = None, set_graded_at = None,
                set_graded_by = None\<rparr>"

definition apply_patch :: "submission_patch \<Rightarrow> submission \<Rightarrow> submission" where
  "apply_patch c s =
     \<lparr>sub_id = (case set_id c of None \<Rightarrow> sub_id s | Some v \<Rightarrow> v),
      sub_assignment_id =
        (case set_assignment_id c of None \<Rightarrow> sub_assignment_id s | Some v \<Rightarrow> v),
      sub_student_id = (case set_student_id c of None \<Rightarrow> sub_student_id s | Some v \<Rightarrow> v),
      sub_content = (case set_content c of None \<Rightarrow> sub_content s | Some v \<Rightarrow> v),
      sub_file_url = (case set_file_url c of None \<Rightarrow> sub_file_url s | Some v \<Rightarrow> v),
      sub_submitted_at =
        (case set_submitted_at c of None \<Rightarrow> sub_submitted_at s | Some v \<Rightarrow> v),
      sub_grade = (case set_grade c of None \<Rightarrow> sub_grade s | Some v \<Rightarrow> v),
      sub_feedback = (case set_feedback c of None \<Rightarrow> sub_feedback s | Some v \<Rightarrow> v),
      sub_graded_at = (case set_graded_at c of None \<Rightarrow> sub_graded_at s | Some v \<Rightarrow> v),
      sub_graded_by = (case set_graded_by c of None \<Rightarrow> sub_graded_by s | Some v \<Rightarrow> v)\<rparr>"

text \<open>The grade that the object names fits \<^verbatim>\<open>INTEGER\<close>; the rows it names exist.\<close>

definition patch_in_range :: "submission_patch \<Rightarrow> bool" where
  "patch_in_range c = (case set_grade c of None \<Rightarrow> True | Some v \<Rightarrow> int4_or_null v)"

definition patch_refs_ok :: "db \<Rightarrow> submission_patch \<Rightarrow> bool" where
  "patch_refs_ok d c =
     ((case set_assignment_id c of
         None \<Rightarrow> True
       | Some a \<Rightarrow> a \<in> set (map asg_id (assignments d)))
      \<and> (case set_student_id c of None \<Rightarrow> True | Some u \<Rightarrow> u \<in> set (users d))
      \<and> (case set_graded_by c of None \<Rightarrow> True | Some v \<Rightarrow> user_or_null d v))"

text \<open>
  \<^verbatim>\<open>UPDATE submissions SET ... WHERE wh\<close>, with the object \<open>c\<close> as the \<^verbatim>\<open>SET\<close> clause. A
  number in \<open>c\<close> that does not fit its column is refused first, when the values are
  read. The statement then touches the rows that satisfy \<open>wh\<close> and pass both the
  \<^verbatim>\<open>SELECT\<close> policies (the \<^verbatim>\<open>WHERE\<close> clause reads the row) and the \<^verbatim>\<open>UPDATE\<close>
  policies; the other rows are skipped without an error. Each row as updated is
  checked against the same two sets of policies, and one that fails aborts the
  statement with an error; so does a key that the table as updated holds twice, and
  a reference written into a row that points to no row.
\<close>

definition submissions_update_target ::
  "db \<Rightarrow> principal \<Rightarrow> (submission \<Rightarrow> bool) \<Rightarrow> submission \<Rightarrow> bool" where
  "submissions_update_target d p wh s =
     (wh s \<and> submissions_select d p s \<and> submissions_update_policies d p s)"

definition update_submissions ::
  "db \<Rightarrow> principal \<Rightarrow> (submission \<Rightarrow> bool) \<Rightarrow> submission_patch \<Rightarrow> pg_error + db" where
  "update_submissions d p wh c =
     (let targets = filter (submissions_update_target d p wh) (submissions d);
          rows = map (\<lambda>s. if submissions_update_target d p wh s then apply_patch c s else s)
                   (submissions d)
      in if \<not> patch_in_range c then Inl NumericValueOutOfRange
         else if \<not> list_all
                  (\<lambda>s. submissions_update_policies d p (apply_patch c s)
                       \<and> submissions_select d p (apply_patch c s))
                  targets
           then Inl InsufficientPrivilege
         else if \<not> distinct (map sub_id rows) then Inl UniqueViolation
         else if \<not> distinct (map (\<lambda>x. (sub_assignment_id x, sub_student_id x)) rows)
           then Inl UniqueViolation
         else if targets \<noteq> [] \<and> \<not> patch_refs_ok d c then Inl ForeignKeyViolation
         else Inr (d\<lparr>submissions := rows\<rparr>))"

text \<open>
  \<^verbatim>\<open>UPDATE notifications SET ... WHERE wh\<close>, in the same way; \<open>f\<close> is the \<^verbatim>\<open>SET\<close>
  clause as a function of the stored row.
\<close>

definition notifications_update_target ::
  "db \<Rightarrow> principal \<Rightarrow> (notification \<Rightarrow> bool) \<Rightarrow> notification \<Rightarrow> bool" where
  "notifications_update_target d p wh n =
     (wh n \<and> notifications_select d p n \<and> notifications_update_policies d p n)"

definition update_notifications ::
  "db \<Rightarrow> principal \<Rightarrow> (notification \<Rightarrow> bool) \<Rightarrow> (notification \<Rightarrow> notification)
     \<Rightarrow> pg_error + db" where
  "update_notifications d p wh f =
     (let targets = filter (notifications_update_target d p wh) (notifications d);
          rows = map (\<lambda>n. if notifications_update_target d p wh n then f n else n)
                   (notifications d)
      in if \<not> list_all
                  (\<lambda>n. notifications_update_policies d p (f n) \<and> notifications_select d p (f n))
                  targets
           then Inl InsufficientPrivilege
         else if \<not> distinct (map ntf_id rows) then Inl UniqueViolation
         else Inr (d\<lparr>notifications := rows\<rparr>))"

text \<open>The constraints of the two tables, which every state of the store satisfies.\<close>

definition enrollments_ok :: "db \<Rightarrow> bool" where
  "enrollments_ok d =
     (distinct (map enr_id (enrollments d))
      \<and> distinct (map (\<lambda>x. (enr_student_id x, enr_course_id x)) (enrollments d)))"

definition submissions_ok :: "db \<Rightarrow> bool" where
  "submissions_ok d =
     (distinct (map sub_id (submissions d))
      \<and> distinct (map (\<lambda>x. (sub_assignment_id x, sub_student_id x)) (submissions d)))"

section \<open>The pages\<close>

subsection \<open>Enrolling: \<^verbatim>\<open>handleEnroll\<close> of \<^verbatim>\<open>StudentDashboard\<close>\<close>

record toast =
  title :: string
  description :: "pg_error option"
  variant :: "string option"

text \<open>
  The component is the second one of \<^verbatim>\<open>src/pages/EnrollmentsPage.tsx\<close>.
  \<^verbatim>\<open>handleEnroll(courseId)\<close>: without a signed-in user it returns and shows nothing.
  Otherwise it inserts \<^verbatim>\<open>{ student_id: user.id, course_id: courseId }\<close>; the store
  fills in \<^verbatim>\<open>id\<close> (\<open>new_id\<close>), \<^verbatim>\<open>enrolled_at\<close> (\<open>now\<close>) and \<^verbatim>\<open>status\<close>. An error is
  thrown and caught, and shown as a destructive toast that carries the error's
  message. The result is the toast shown and the store afterwards.
\<close>

definition handleEnroll ::
  "principal option \<Rightarrow> uuid \<Rightarrow> uuid \<Rightarrow> timestamptz \<Rightarrow> db \<Rightarrow> toast option \<times> db" where
  "handleEnroll user courseId new_id now d =
     (case user of
        None \<Rightarrow> (None, d)
      | Some u \<Rightarrow>
          (case insert_enrollment d u
                  \<lparr>enr_id = new_id, enr_student_id = pid u, enr_course_id = courseId,
                   enr_enrolled_at = now, enr_status = ''active''\<rparr> of
             Inl err \<Rightarrow>
               (Some \<lparr>title = ''Error'', description = Some err,
                      variant = Some ''destructive''\<rparr>, d)
           | Inr d' \<Rightarrow>
               (Some \<lparr>title = ''Successfully enrolled in course!'', description = None,
                      variant = None\<rparr>, d')))"

text \<open>
  A run of insert statements on \<^verbatim>\<open>enrollments\<close>, each sent by its own principal. A
  refused insert leaves the store as it was.
\<close>

fun enroll_all :: "db \<Rightarrow> (principal \<times> enrollment) list \<Rightarrow> db" where
  "enroll_all d [] = d"
| "enroll_all d ((p, e) # rest) =
     (case insert_enrollment d p e of
        Inl err \<Rightarrow> enroll_all d rest
      | Inr d' \<Rightarrow> enroll_all d' rest)"

subsection \<open>Grading: the update of \<^verbatim>\<open>LecturerSubmissionsPage\<close>\<close>

text \<open>
  \<^verbatim>\<open>supabase.from("submissions").update({ grade: gradeValue, feedback: feedback,
  graded_by: user.id, graded_at: new Date().toISOString() }).eq("id", submissionId)\<close>,
  as SPEAKER\_NOTES.md quotes it. \<open>grading_update\<close> is the object passed to
  \<^verbatim>\<open>update\<close>. The page that computes \<open>gradeValue\<close> is not among the sources; it is
  taken to be a whole number, of any size, and \<open>feedback\<close> a string.
\<close>

definition grading_update ::
  "principal \<Rightarrow> int \<Rightarrow> string \<Rightarrow> timestamptz \<Rightarrow> submission_patch" where
  "grading_update user gradeValue feedback now =
     no_change\<lparr>set_grade := Some (Some gradeValue), set_feedback := Some (Some feedback),
               set_graded_by := Some (Some (pid user)), set_graded_at := Some (Some now)\<rparr>"

definition grade_submission ::
  "db \<Rightarrow> principal \<Rightarrow> uuid \<Rightarrow> int \<Rightarrow> string \<Rightarrow> timestamptz \<Rightarrow> pg_error + db" where
  "grade_submission d user submissionId gradeValue feedback now =
     update_submissions d user (\<lambda>s. sub_id s = submissionId)
       (grading_update user gradeValue feedback now)"

text \<open>A submission has all three grading fields or none of them.\<close>

definition graded_together :: "submission \<Rightarrow> bool" where
  "graded_together s =
     ((sub_grade s = None) = (sub_graded_at s = None)
      \<and> (sub_grade s = None) = (sub_graded_by s = None))"

definition fully_graded :: "submission \<Rightarrow> bool" where
  "fully_graded s =
     (sub_grade s \<noteq> None \<and> sub_graded_at s \<noteq> None \<and> sub_graded_by s \<noteq> None)"

subsection \<open>Progress: \<^verbatim>\<open>fetchAnalytics\<close> of the analytics page\<close>

record CourseProgress =
  course_title :: string
  total_assignments :: nat
  submitted_assignments :: nat
  average_grade :: "rat option"

datatype analytics_outcome = NoUser | ErrorToast | SetProgress "CourseProgress list"

text \<open>
  A JavaScript number is an IEEE 754 double; it is represented by its value, a
  rational. \<open>binary64 x\<close> is the double nearest to \<open>x\<close>: \<open>x\<close> is scaled by a power of
  two into the range of the 53-bit significands, rounded to the nearest whole number
  with ties to the even one, and scaled back. The exponent range of the format is
  not modelled: sums and quotients of 32-bit grades do not leave it. \<^verbatim>\<open>a + b\<close> and
  \<^verbatim>\<open>a / b\<close> are the exact results rounded.
\<close>

definition round_half_even :: "rat \<Rightarrow> int" where
  "round_half_even x =
     (let f = \<lfloor>x\<rfloor>; r = x - rat_of_int f
      in if r < 1 / 2 then f else if 1 / 2 < r then f + 1 else if even f then f else f + 1)"

definition binary64_exponent :: "rat \<Rightarrow> int" where
  "binary64_exponent a =
     (let (n, d) = quotient_of a; k = bitlen n - bitlen d - 53
      in if a / (2 powi k) < 2 ^ 53 then k else k + 1)"

definition binary64 :: "rat \<Rightarrow> rat" where
  "binary64 x =
     (if x = 0 then 0
      else let k = binary64_exponent \<bar>x\<bar>
           in sgn x * rat_of_int (round_half_even (\<bar>x\<bar> / (2 powi k))) * (2 powi k))"

definition js_add :: "rat \<Rightarrow> rat \<Rightarrow> rat" where
  "js_add a b = binary64 (a + b)"

definition js_div :: "rat \<Rightarrow> rat \<Rightarrow> rat" where
  "js_div a b = binary64 (a / b)"

text \<open>
  \<^verbatim>\<open>grades.length > 0 ? grades.reduce((a, b) => a + b, 0) / grades.length : null\<close>.
  The grades are the integers of an \<^verbatim>\<open>INTEGER\<close> column, read as numbers.
\<close>

definition avgGrade :: "int list \<Rightarrow> rat option" where
  "avgGrade grades =
     (if length grades > 0
      then Some (js_div (foldl js_add 0 (map rat_of_int grades)) (rat_of_nat (length grades)))
      else None)"

text \<open>
  The body of the loop for one enrollment and the course embedded in it:
  \<open>totalAssignments\<close> counts the assignments of the course that the user can read,
  \<open>submissions\<close> are the user's readable submissions whose assignment is among them.
\<close>

definition courseProgress :: "db \<Rightarrow> principal \<Rightarrow> enrollment \<Rightarrow> course \<Rightarrow> CourseProgress" where
  "courseProgress d user enrollment c =
     (let courseId = enr_course_id enrollment;
          courseTitle = crs_title c;
          totalAssignments =
            length (filter (\<lambda>a. asg_course_id a = courseId) (visible_assignments d user));
          ids = map asg_id
                  (filter (\<lambda>a. asg_course_id a = courseId) (visible_assignments d user));
          submissions =
            filter (\<lambda>s. sub_student_id s = pid user \<and> sub_assignment_id s \<in> set ids)
              (visible_submissions d user);
          submittedCount = length submissions;
          grades = map (\<lambda>s. the (sub_grade s)) (filter (\<lambda>s. sub_grade s \<noteq> None) submissions);
          avg = avgGrade grades
      in \<lparr>course_title = courseTitle, total_assignments = totalAssignments,
          submitted_assignments = submittedCount, average_grade = avg\<rparr>)"

text \<open>
  \<^verbatim>\<open>for (const enrollment of enrollments)\<close>: reading \<^verbatim>\<open>enrollment.courses.title\<close> of an
  enrollment whose embedded course is \<^verbatim>\<open>null\<close> throws, which ends the loop
  (\<open>None\<close>).
\<close>

fun progress_loop :: "db \<Rightarrow> principal \<Rightarrow> enrollment list \<Rightarrow> CourseProgress list option" where
  "progress_loop d user [] = Some []"
| "progress_loop d user (enrollment # rest) =
     (case find (\<lambda>c. crs_id c = enr_course_id enrollment) (visible_courses d user) of
        None \<Rightarrow> None
      | Some c \<Rightarrow>
          (case progress_loop d user rest of
             None \<Rightarrow> None
           | Some ps \<Rightarrow> Some (courseProgress d user enrollment c # ps)))"

definition fetchAnalytics :: "db \<Rightarrow> principal option \<Rightarrow> analytics_outcome" where
  "fetchAnalytics d user =
     (case user of
        None \<Rightarrow> NoUser
      | Some u \<Rightarrow>
          (case progress_loop d u
                  (filter (\<lambda>e. enr_student_id e = pid u) (visible_enrollments d u)) of
             None \<Rightarrow> ErrorToast
           | Some ps \<Rightarrow> SetProgress ps))"

text \<open>
  The claim's words, to compare the page with: the student's submissions for the
  assignments of a course, and the mean of a list of grades.
\<close>

definition student_course_submissions :: "db \<Rightarrow> uuid \<Rightarrow> uuid \<Rightarrow> submission list" where
  "student_course_submissions d student courseId =
     filter (\<lambda>s. sub_student_id s = student
                \<and> sub_assignment_id s
                    \<in> set (map asg_id (filter (\<lambda>a. asg_course_id a = courseId) (assignments d))))
       (submissions d)"

definition graded_grades :: "submission list \<Rightarrow> int list" where
  "graded_grades ss = concat (map (\<lambda>s. case sub_grade s of None \<Rightarrow> [] | Some g \<Rightarrow> [g]) ss)"

definition arithmetic_mean :: "int list \<Rightarrow> rat" where
  "arithmetic_mean gs = rat_of_int (sum_list gs) / rat_of_nat (length gs)"

section \<open>Parts modelled from the spec\<close>

text \<open>
  Modelled from the spec: the update permission on a course. The policies of
  \<^verbatim>\<open>courses\<close> are part of the earlier migration that is not among the sources. Spec
  4.2: admin, all actions; lecturer, update only if \<open>principal_id == created_by\<close>;
  student, read-only.
\<close>

definition canUpdate_Course :: "principal \<Rightarrow> course \<Rightarrow> bool" where
  "canUpdate_Course p c =
     (case prole p of
        Admin \<Rightarrow> True
      | Lecturer \<Rightarrow> pid p = crs_created_by c
      | Student \<Rightarrow> False)"

text \<open>
  Modelled from the spec: the Notification Fan-out. The edge functions that send
  notifications (\<^verbatim>\<open>send-notification\<close>, \<^verbatim>\<open>assignment-service\<close>, \<^verbatim>\<open>submission-service\<close>,
  \<^verbatim>\<open>grading-service\<close>) are named by the deployment guide and are not among the
  sources. Spec 4.5: an assignment created goes to all principals with an active
  enrollment in that course, a submission created to the lecturer owning the
  assignment's course, a submission graded to the submitting student; recipients are
  deduplicated, then one row is inserted for each.
\<close>

datatype mutation =
  AssignmentCreated assignment
| SubmissionCreated submission
| SubmissionGraded submission

fun recipients :: "db \<Rightarrow> mutation \<Rightarrow> uuid list" where
  "recipients d (AssignmentCreated a) =
     map enr_student_id
       (filter (\<lambda>e. enr_course_id e = asg_course_id a \<and> enr_status e = ''active'')
          (enrollments d))"
| "recipients d (SubmissionCreated s) =
     concat (map (\<lambda>a. map crs_created_by (filter (\<lambda>c. crs_id c = asg_course_id a) (courses d)))
       (filter (\<lambda>a. asg_id a = sub_assignment_id s) (assignments d)))"
| "recipients d (SubmissionGraded s) = [sub_student_id s]"

fun mutation_kind :: "mutation \<Rightarrow> string" where
  "mutation_kind (AssignmentCreated a) = ''assignment''"
| "mutation_kind (SubmissionCreated s) = ''submission''"
| "mutation_kind (SubmissionGraded s) = ''graded''"

text \<open>
  Modelled from the spec: one row for each deduplicated recipient, appended to the
  table. \<open>gen k\<close> is the identifier the store generates for the \<open>k\<close>-th row.
\<close>

definition fan_out_rows ::
  "db \<Rightarrow> mutation \<Rightarrow> (nat \<Rightarrow> uuid) \<Rightarrow> string \<Rightarrow> string \<Rightarrow> timestamptz \<Rightarrow> notification list" where
  "fan_out_rows d m gen ttl msg now =
     map (\<lambda>(k, u). \<lparr>ntf_id = gen k, ntf_user_id = u, ntf_type = mutation_kind m,
                     ntf_title = ttl, ntf_message = msg, ntf_read = False,
                     ntf_created_at = now\<rparr>)
       (enumerate 0 (remdups (recipients d m)))"

definition fan_out ::
  "db \<Rightarrow> mutation \<Rightarrow> (nat \<Rightarrow> uuid) \<Rightarrow> string \<Rightarrow> string \<Rightarrow> timestamptz \<Rightarrow> db" where
  "fan_out d m gen ttl msg now =
     d\<lparr>notifications := notifications d @ fan_out_rows d m gen ttl msg now\<rparr>"

section \<open>The claims' words\<close>

text \<open>
  An enrollment row of the student in the course, of any status and of status
  \<^verbatim>\<open>'active'\<close>.
\<close>

definition enrollment_exists :: "db \<Rightarrow> uuid \<Rightarrow> uuid \<Rightarrow> bool" where
  "enrollment_exists d student courseId =
     list_ex (\<lambda>e. enr_student_id e = student \<and> enr_course_id e = courseId) (enrollments d)"

definition active_enrollment_exists :: "db \<Rightarrow> uuid \<Rightarrow> uuid \<Rightarrow> bool" where
  "active_enrollment_exists d student courseId =
     list_ex (\<lambda>e. enr_student_id e = student \<and> enr_course_id e = courseId
                  \<and> enr_status e = ''active'') (enrollments d)"

text \<open>The lecturer created the course that owns the submission's assignment.\<close>

definition created_course_of :: "db \<Rightarrow> uuid \<Rightarrow> submission \<Rightarrow> bool" where
  "created_course_of d lecturer s =
     list_ex (\<lambda>a. asg_id a = sub_assignment_id s
                \<and> list_ex (\<lambda>c. crs_id c = asg_course_id a \<and> crs_created_by c = lecturer)
                     (courses d))
       (assignments d)"

section \<open>A small store\<close>

text \<open>
  Lecturer 1 created course 10 (CS101) with assignment 20 (HW1). Student 2 is
  enrolled and has a graded submission 40. Student 3 is not enrolled, 4 is an admin,
  5 another lecturer. Student 6 has withdrawn from the course.
\<close>

definition lecturer1 :: principal where
  "lecturer1 = \<lparr>pid = 1, prole = Lecturer\<rparr>"

definition student2 :: principal where
  "student2 = \<lparr>pid = 2, prole = Student\<rparr>"

definition student3 :: principal where
  "student3 = \<lparr>pid = 3, prole = Student\<rparr>"

definition admin4 :: principal where
  "admin4 = \<lparr>pid = 4, prole = Admin\<rparr>"

definition lecturer5 :: principal where
  "lecturer5 = \<lparr>pid = 5, prole = Lecturer\<rparr>"

definition student6 :: principal where
  "student6 = \<lparr>pid = 6, prole = Student\<rparr>"

definition cs101 :: course where
  "cs101 = \<lparr>crs_id = 10, crs_title = ''CS101'', crs_description = None,
            crs_created_by = 1, crs_lecturer_id = Some 1\<rparr>"

definition hw1 :: assignment where
  "hw1 = \<lparr>asg_id = 20, asg_course_id = 10, asg_title = ''HW1'', asg_description = None,
          asg_due_date = 7, asg_max_grade = 100, asg_created_by = 1, asg_created_at = 0,
          asg_updated_at = 0\<rparr>"

definition enr2 :: enrollment where
  "enr2 = \<lparr>enr_id = 30, enr_student_id = 2, enr_course_id = 10, enr_enrolled_at = 1,
           enr_status = ''active''\<rparr>"

definition enr6 :: enrollment where
  "enr6 = \<lparr>enr_id = 31, enr_student_id = 6, enr_course_id = 10, enr_enrolled_at = 1,
           enr_status = ''withdrawn''\<rparr>"

definition sub40 :: submission where
  "sub40 = \<lparr>sub_id = 40, sub_assignment_id = 20, sub_student_id = 2,
            sub_content = ''answer'', sub_file_url = None, sub_submitted_at = 2,
            sub_grade = Some 85, sub_feedback = Some ''Good job'', sub_graded_at = Some 3,
            sub_graded_by = Some 1\<rparr>"

definition sub41 :: submission where
  "sub41 = \<lparr>sub_id = 41, sub_assignment_id = 20, sub_student_id = 3,
            sub_content = ''answer'', sub_file_url = None, sub_submitted_at = 2,
            sub_grade = None, sub_feedback = None, sub_graded_at = None,
            sub_graded_by = None\<rparr>"

definition ntf50 :: notification where
  "ntf50 = \<lparr>ntf_id = 50, ntf_user_id = 2, ntf_type = ''graded'', ntf_title = ''Graded'',
            ntf_message = ''HW1 was graded'', ntf_read = False, ntf_created_at = 3\<rparr>"

definition hw2 :: assignment where
  "hw2 = \<lparr>asg_id = 21, asg_course_id = 10, asg_title = ''HW2'', asg_description = None,
          asg_due_date = 14, asg_max_grade = 100, asg_created_by = 1, asg_created_at = 0,
          asg_updated_at = 0\<rparr>"

definition hw3 :: assignment where
  "hw3 = \<lparr>asg_id = 22, asg_course_id = 10, asg_title = ''HW3'', asg_description = None,
          asg_due_date = 21, asg_max_grade = 100, asg_created_by = 1, asg_created_at = 0,
          asg_updated_at = 0\<rparr>"

definition enr3 :: enrollment where
  "enr3 = \<lparr>enr_id = 32, enr_student_id = 3, enr_course_id = 10, enr_enrolled_at = 1,
           enr_status = ''active''\<rparr>"

definition sub42 :: submission where
  "sub42 = \<lparr>sub_id = 42, sub_assignment_id = 21, sub_student_id = 2,
            sub_content = ''answer'', sub_file_url = None, sub_submitted_at = 4,
            sub_grade = Some 90, sub_feedback = Some ''Fine'', sub_graded_at = Some 5,
            sub_graded_by = Some 1\<rparr>"

definition sub43 :: submission where
  "sub43 = \<lparr>sub_id = 43, sub_assignment_id = 22, sub_student_id = 2,
            sub_content = ''answer'', sub_file_url = None, sub_submitted_at = 6,
            sub_grade = None, sub_feedback = None, sub_graded_at = None,
            sub_graded_by = None\<rparr>"

definition sub46 :: submission where
  "sub46 = \<lparr>sub_id = 46, sub_assignment_id = 22, sub_student_id = 2,
            sub_content = ''answer'', sub_file_url = None, sub_submitted_at = 6,
            sub_grade = Some 90, sub_feedback = Some ''Fine'', sub_graded_at = Some 8,
            sub_graded_by = Some 1\<rparr>"

definition store0 :: db where
  "store0 = \<lparr>users = [1, 2, 3, 4, 5, 6], courses = [cs101],
             enrollments = [], assignments = [hw1], submissions = [],
             notifications = []\<rparr>"

definition store1 :: db where
  "store1 = \<lparr>users = [1, 2, 3, 4, 5, 6], courses = [cs101],
             enrollments = [enr2, enr6], assignments = [hw1],
             submissions = [sub40], notifications = [ntf50]\<rparr>"

definition store2 :: db where
  "store2 = \<lparr>users = [1, 2, 3, 4, 5, 6], courses = [cs101],
             enrollments = [enr2, enr6], assignments = [hw1],
             submissions = [sub40, sub41], notifications = [ntf50]\<rparr>"

definition store3 :: db where
  "store3 = \<lparr>users = [1, 2, 3, 4, 5, 6], courses = [cs101],
             enrollments = [enr2, enr3], assignments = [hw1, hw2, hw3],
             submissions = [sub40, sub41, sub42, sub43], notifications = []\<rparr>"

definition store4 :: db where
  "store4 = \<lparr>users = [1, 2, 3, 4, 5, 6], courses = [cs101], enrollments = [enr2, enr3],
             assignments = [hw1, hw2, hw3], submissions = [sub40, sub41, sub42, sub46],
             notifications = []\<rparr>"

section \<open>Reading assignments\<close>

lemma own_enrollments_visible:
  "filter (\<lambda>e. enr_student_id e = auth_uid p) (visible_enrollments d p)
     = filter (\<lambda>e. enr_student_id e = pid p) (enrollments d)"
  by (auto simp: visible_enrollments_def enrollments_select_def
      students_can_view_their_own_enrollments_def auth_uid_def intro: filter_cong)

lemma enrolled_policy_iff:
  "students_can_view_assignments_for_enrolled_courses d p a
     = enrollment_exists d (pid p) (asg_course_id a)"
  unfolding students_can_view_assignments_for_enrolled_courses_def own_enrollments_visible
  by (force simp: enrollment_exists_def list_ex_iff)

text \<open>
  C2, as the policy has it: a student reads an assignment exactly when an enrollment
  row exists for the student and the assignment's course. The policy does not read
  \<^verbatim>\<open>status\<close>, so the row need not be active.
\<close>

theorem student_reads_assignment_iff_enrolled:
  "prole p = Student \<Longrightarrow>
   a \<in> set (visible_assignments d p)
     \<longleftrightarrow> a \<in> set (assignments d) \<and> enrollment_exists d (pid p) (asg_course_id a)"
  by (auto simp: visible_assignments_def assignments_select_def enrolled_policy_iff
      lecturers_can_manage_their_course_assignments_def admins_can_manage_all_assignments_def
      has_role_def)

theorem student_reads_assignment_iff_enrolled_witness:
  "prole student6 = Student
   \<and> (hw1 \<in> set (visible_assignments store1 student6))
       = (hw1 \<in> set (assignments store1)
          \<and> enrollment_exists store1 (pid student6) (asg_course_id hw1))
   \<and> enrollment_exists store1 (pid student6) (asg_course_id hw1)"
proof -
  have r: "prole student6 = Student"
    by (simp add: student6_def)
  have e: "enrollment_exists store1 (pid student6) (asg_course_id hw1)"
    by code_simp
  from r student_reads_assignment_iff_enrolled [OF r, of hw1 store1] e
  show ?thesis by simp
qed

text \<open>
  C2 as stated fails: student 6 has withdrawn from course 10, has no active
  enrollment there, and still reads its assignment.
\<close>

theorem withdrawn_student_reads_assignment:
  "prole student6 = Student
   \<and> hw1 \<in> set (visible_assignments store1 student6)
   \<and> \<not> active_enrollment_exists store1 (pid student6) (asg_course_id hw1)"
  by code_simp

text \<open>
  C5, as the store has it: a read never answers with an error. It returns the rows
  that pass the policies; when no row passes, the answer is the empty list, the same
  answer as that of an empty table.
\<close>

theorem select_assignments_filters:
  "select_assignments d p = Inr (filter (assignments_select d p) (assignments d))
   \<and> (list_all (\<lambda>a. \<not> assignments_select d p a) (assignments d)
        \<longrightarrow> select_assignments d p = Inr []
          \<and> select_assignments d p = select_assignments (d\<lparr>assignments := []\<rparr>) p)"
  by (simp add: select_assignments_def visible_assignments_def list_all_iff)

theorem select_assignments_filters_witness:
  "list_all (\<lambda>a. \<not> assignments_select store1 student3 a) (assignments store1)
   \<and> select_assignments store1 student3 = Inr []
   \<and> select_assignments store1 student3
       = select_assignments (store1\<lparr>assignments := []\<rparr>) student3"
proof -
  have "list_all (\<lambda>a. \<not> assignments_select store1 student3 a) (assignments store1)"
    by code_simp
  with select_assignments_filters [of store1 student3] show ?thesis
    by blast
qed

text \<open>
  C5 as stated fails: student 3 is not enrolled in course 10, the policy refuses
  assignment 20, and the read answers with an empty list and no error.
\<close>

theorem unenrolled_read_is_empty_not_denied:
  "prole student3 = Student
   \<and> \<not> enrollment_exists store1 (pid student3) (asg_course_id hw1)
   \<and> hw1 \<in> set (assignments store1)
   \<and> \<not> assignments_select store1 student3 hw1
   \<and> select_assignments store1 student3 = Inr []"
  by code_simp

section \<open>Creating submissions\<close>

lemma student_insert_check:
  "prole p = Student \<Longrightarrow> submissions_insert_check d p s = (sub_student_id s = pid p)"
  by (auto simp: submissions_insert_check_def students_can_create_their_own_submissions_def
      admins_can_manage_all_submissions_def has_role_def auth_uid_def)

lemma insert_submission_Inr:
  "insert_submission d p s = Inr d' \<Longrightarrow>
   submissions_insert_check d p s
   \<and> (sub_assignment_id s, sub_student_id s)
       \<notin> set (map (\<lambda>x. (sub_assignment_id x, sub_student_id x)) (submissions d))
   \<and> d' = d\<lparr>submissions := submissions d @ [s]\<rparr>"
  by (simp add: insert_submission_def split: if_splits)

text \<open>
  C1, as the policy and the constraint have it: a student's insert succeeds only when
  the row's \<^verbatim>\<open>student_id\<close> is the student's own id and no row exists for the same
  \<^verbatim>\<open>(assignment_id, student_id)\<close>, and it then adds the row. An insert with another
  \<^verbatim>\<open>student_id\<close>, and one for a pair that has a row, answers with an error: for a
  grade that fits its column, the policy's refusal and the unique violation.
  Enrollment is not among the conditions.
\<close>

theorem student_insert_submission:
  assumes "prole p = Student"
  shows "(insert_submission d p s = Inr d'
            \<longrightarrow> sub_student_id s = pid p
              \<and> (sub_assignment_id s, sub_student_id s)
                  \<notin> set (map (\<lambda>x. (sub_assignment_id x, sub_student_id x)) (submissions d))
              \<and> d' = d\<lparr>submissions := submissions d @ [s]\<rparr>)
       \<and> (sub_student_id s \<noteq> pid p \<longrightarrow> (\<exists>err. insert_submission d p s = Inl err))
       \<and> ((sub_assignment_id s, sub_student_id s)
             \<in> set (map (\<lambda>x. (sub_assignment_id x, sub_student_id x)) (submissions d))
            \<longrightarrow> (\<exists>err. insert_submission d p s = Inl err))
       \<and> (int4_or_null (sub_grade s) \<and> sub_student_id s \<noteq> pid p
            \<longrightarrow> insert_submission d p s = Inl InsufficientPrivilege)
       \<and> (int4_or_null (sub_grade s) \<and> sub_student_id s = pid p
             \<and> (sub_assignment_id s, sub_student_id s)
                 \<in> set (map (\<lambda>x. (sub_assignment_id x, sub_student_id x)) (submissions d))
            \<longrightarrow> insert_submission d p s = Inl UniqueViolation)"
proof -
  note chk = student_insert_check [OF assms, of d s]
  have 1: "insert_submission d p s = Inr d'
            \<longrightarrow> sub_student_id s = pid p
              \<and> (sub_assignment_id s, sub_student_id s)
                  \<notin> set (map (\<lambda>x. (sub_assignment_id x, sub_student_id x)) (submissions d))
              \<and> d' = d\<lparr>submissions := submissions d @ [s]\<rparr>"
    using insert_submission_Inr [of d p s d'] unfolding chk by blast
  have 2: "sub_student_id s \<noteq> pid p \<longrightarrow> (\<exists>err. insert_submission d p s = Inl err)"
    by (simp add: insert_submission_def chk)
  have 3: "(sub_assignment_id s, sub_student_id s)
             \<in> set (map (\<lambda>x. (sub_assignment_id x, sub_student_id x)) (submissions d))
            \<longrightarrow> (\<exists>err. insert_submission d p s = Inl err)"
    by (simp add: insert_submission_def)
  have 4: "int4_or_null (sub_grade s) \<and> sub_student_id s \<noteq> pid p
            \<longrightarrow> insert_submission d p s = Inl InsufficientPrivilege"
    by (simp add: insert_submission_def chk)
  have 5: "int4_or_null (sub_grade s) \<and> sub_student_id s = pid p
             \<and> (sub_assignment_id s, sub_student_id s)
                 \<in> set (map (\<lambda>x. (sub_assignment_id x, sub_student_id x)) (submissions d))
            \<longrightarrow> insert_submission d p s = Inl UniqueViolation"
    by (simp add: insert_submission_def chk)
  from 1 2 3 4 5 show ?thesis
    by (intro conjI)
qed

theorem student_insert_submission_witness:
  "prole student3 = Student
   \<and> insert_submission store0 student3 sub41
       = Inr (store0\<lparr>submissions := submissions store0 @ [sub41]\<rparr>)
   \<and> sub_student_id sub41 = pid student3
   \<and> sub_student_id sub41 \<noteq> pid student2
   \<and> insert_submission store0 student2 sub41 = Inl InsufficientPrivilege
   \<and> sub_id (sub40\<lparr>sub_id := 47\<rparr>) \<notin> set (map sub_id (submissions store1))
   \<and> insert_submission store1 student2 (sub40\<lparr>sub_id := 47\<rparr>) = Inl UniqueViolation"
proof -
  have r3: "prole student3 = Student" and r2: "prole student2 = Student"
    by (simp_all add: student3_def student2_def)
  have i: "insert_submission store0 student3 sub41
             = Inr (store0\<lparr>submissions := submissions store0 @ [sub41]\<rparr>)"
    by code_simp
  have b: "int4_or_null (sub_grade sub41) \<and> sub_student_id sub41 \<noteq> pid student2"
    by code_simp
  have c: "int4_or_null (sub_grade (sub40\<lparr>sub_id := 47\<rparr>))
           \<and> sub_student_id (sub40\<lparr>sub_id := 47\<rparr>) = pid student2
           \<and> (sub_assignment_id (sub40\<lparr>sub_id := 47\<rparr>), sub_student_id (sub40\<lparr>sub_id := 47\<rparr>))
               \<in> set (map (\<lambda>x. (sub_assignment_id x, sub_student_id x)) (submissions store1))"
    by code_simp
  have f: "sub_id (sub40\<lparr>sub_id := 47\<rparr>) \<notin> set (map sub_id (submissions store1))"
    by code_simp
  from student_insert_submission [OF r3, where d = store0 and s = sub41
      and d' = "store0\<lparr>submissions := submissions store0 @ [sub41]\<rparr>"] i
  have 1: "sub_student_id sub41 = pid student3"
    by blast
  from student_insert_submission [OF r2, where d = store0 and s = sub41] b
  have 2: "insert_submission store0 student2 sub41 = Inl InsufficientPrivilege"
    by blast
  from student_insert_submission [OF r2, where d = store1 and s = "sub40\<lparr>sub_id := 47\<rparr>"] c
  have 3: "insert_submission store1 student2 (sub40\<lparr>sub_id := 47\<rparr>) = Inl UniqueViolation"
    by blast
  from r3 i 1 b 2 f 3 show ?thesis
    by (intro conjI) blast+
qed

text \<open>
  C1 as stated fails: student 3 has no enrollment in course 10, and the insert of a
  submission for its assignment 20 succeeds.
\<close>

theorem unenrolled_student_creates_submission:
  "prole student3 = Student
   \<and> \<not> active_enrollment_exists store0 (pid student3) (asg_course_id hw1)
   \<and> asg_id hw1 = sub_assignment_id sub41
   \<and> insert_submission store0 student3 sub41 = Inr (store0\<lparr>submissions := [sub41]\<rparr>)"
  by code_simp

section \<open>Updating courses\<close>

text \<open>
  C6: the update permission on a course holds exactly for an admin and for the
  lecturer who created the course.
\<close>

theorem canUpdate_Course_iff:
  "canUpdate_Course p c
     \<longleftrightarrow> prole p = Admin \<or> (prole p = Lecturer \<and> pid p = crs_created_by c)"
  by (cases "prole p") (simp_all add: canUpdate_Course_def)

theorem canUpdate_Course_iff_witness:
  "canUpdate_Course lecturer1 cs101 \<and> \<not> canUpdate_Course lecturer5 cs101
   \<and> canUpdate_Course admin4 cs101 \<and> \<not> canUpdate_Course student2 cs101"
  using canUpdate_Course_iff [of lecturer1 cs101] canUpdate_Course_iff [of lecturer5 cs101]
    canUpdate_Course_iff [of admin4 cs101] canUpdate_Course_iff [of student2 cs101]
  by (simp add: lecturer1_def lecturer5_def admin4_def student2_def cs101_def)

section \<open>Enrolling\<close>

lemma distinct_map_filter_le_one:
  "distinct (map f xs) \<Longrightarrow> length (filter (\<lambda>x. f x = k) xs) \<le> 1"
proof (induction xs)
  case Nil
  then show ?case by simp
next
  case (Cons x xs)
  show ?case
  proof (cases "f x = k")
    case True
    have "f y \<noteq> k" if "y \<in> set xs" for y
      using that True Cons.prems by (metis distinct.simps(2) image_eqI list.simps(9) set_map)
    then have "filter (\<lambda>y. f y = k) xs = []"
      by (simp add: filter_empty_conv)
    with True show ?thesis by simp
  next
    case False
    with Cons show ?thesis by simp
  qed
qed

lemma insert_enrollment_ok:
  "enrollments_ok d \<Longrightarrow> insert_enrollment d p e = Inr d' \<Longrightarrow> enrollments_ok d'"
  by (auto simp: insert_enrollment_def enrollments_ok_def split: if_splits)

lemma enroll_all_ok: "enrollments_ok d \<Longrightarrow> enrollments_ok (enroll_all d reqs)"
proof (induction reqs arbitrary: d)
  case Nil
  then show ?case by simp
next
  case (Cons r reqs)
  obtain p e where r: "r = (p, e)"
    by (cases r)
  show ?case
  proof (cases "insert_enrollment d p e")
    case (Inl err)
    with Cons r show ?thesis by simp
  next
    case (Inr d')
    with Cons.prems have "enrollments_ok d'"
      by (auto intro: insert_enrollment_ok)
    with Cons.IH Inr r show ?thesis by simp
  qed
qed

lemma enrollment_exists_pair:
  "enrollment_exists d st c
     = ((st, c) \<in> set (map (\<lambda>x. (enr_student_id x, enr_course_id x)) (enrollments d)))"
  by (force simp: enrollment_exists_def list_ex_iff)

lemma insert_enrollment_duplicate:
  assumes "enrollment_exists d (enr_student_id e) (enr_course_id e)"
  shows "insert_enrollment d p e
           = Inl (if enrollments_insert_check d p e then UniqueViolation
                  else InsufficientPrivilege)"
  using assms unfolding enrollment_exists_pair insert_enrollment_def by simp

text \<open>
  C4: after any run of inserts on an empty table, whoever sends them, a
  \<^verbatim>\<open>(student_id, course_id)\<close> pair has at most one enrollment row. An insert for a
  pair that already has a row answers with an error, whoever sends it: the unique
  violation when the insert policies admit the row, the policy's refusal otherwise.
  \<^verbatim>\<open>handleEnroll\<close> then shows that error in a destructive toast and leaves the store as
  it was, and for a student the error is the unique violation.
\<close>

theorem enrollment_pair_unique_and_conflict:
  "(enrollments d0 = []
      \<longrightarrow> length (filter (\<lambda>x. enr_student_id x = student \<and> enr_course_id x = courseId)
                    (enrollments (enroll_all d0 reqs))) \<le> 1)
   \<and> (enrollment_exists d (enr_student_id e) (enr_course_id e)
      \<longrightarrow> insert_enrollment d p e
           = Inl (if enrollments_insert_check d p e then UniqueViolation
                  else InsufficientPrivilege))
   \<and> (enrollment_exists d (pid u) courseId
      \<longrightarrow> (\<exists>err. handleEnroll (Some u) courseId new_id now d
                   = (Some \<lparr>title = ''Error'', description = Some err,
                            variant = Some ''destructive''\<rparr>, d)))
   \<and> (prole u = Student \<and> enrollment_exists d (pid u) courseId
      \<longrightarrow> handleEnroll (Some u) courseId new_id now d
           = (Some \<lparr>title = ''Error'', description = Some UniqueViolation,
                    variant = Some ''destructive''\<rparr>, d))"
proof (intro conjI impI)
  assume "enrollments d0 = []"
  then have "enrollments_ok (enroll_all d0 reqs)"
    by (intro enroll_all_ok) (simp add: enrollments_ok_def)
  then have "distinct (map (\<lambda>x. (enr_student_id x, enr_course_id x))
                         (enrollments (enroll_all d0 reqs)))"
    by (simp add: enrollments_ok_def)
  from distinct_map_filter_le_one [OF this, of "(student, courseId)"]
  show "length (filter (\<lambda>x. enr_student_id x = student \<and> enr_course_id x = courseId)
                    (enrollments (enroll_all d0 reqs))) \<le> 1"
    by simp
next
  assume "enrollment_exists d (enr_student_id e) (enr_course_id e)"
  then show "insert_enrollment d p e
           = Inl (if enrollments_insert_check d p e then UniqueViolation
                  else InsufficientPrivilege)"
    by (rule insert_enrollment_duplicate)
next
  let ?e = "\<lparr>enr_id = new_id, enr_student_id = pid u, enr_course_id = courseId,
             enr_enrolled_at = now, enr_status = ''active''\<rparr>"
  assume "enrollment_exists d (pid u) courseId"
  then have "enrollment_exists d (enr_student_id ?e) (enr_course_id ?e)"
    by simp
  from insert_enrollment_duplicate [OF this, of u]
  show "\<exists>err. handleEnroll (Some u) courseId new_id now d
                   = (Some \<lparr>title = ''Error'', description = Some err,
                            variant = Some ''destructive''\<rparr>, d)"
    by (simp add: handleEnroll_def)
next
  let ?e = "\<lparr>enr_id = new_id, enr_student_id = pid u, enr_course_id = courseId,
             enr_enrolled_at = now, enr_status = ''active''\<rparr>"
  assume a: "prole u = Student \<and> enrollment_exists d (pid u) courseId"
  then have chk: "enrollments_insert_check d u ?e"
    by (simp add: enrollments_insert_check_def students_can_enroll_in_courses_def
        has_role_def auth_uid_def)
  from a have "enrollment_exists d (enr_student_id ?e) (enr_course_id ?e)"
    by simp
  from insert_enrollment_duplicate [OF this, of u] chk
  have "insert_enrollment d u ?e = Inl UniqueViolation"
    by simp
  then show "handleEnroll (Some u) courseId new_id now d
           = (Some \<lparr>title = ''Error'', description = Some UniqueViolation,
                    variant = Some ''destructive''\<rparr>, d)"
    by (simp add: handleEnroll_def)
qed

theorem enrollment_pair_unique_and_conflict_witness:
  "enrollments store0 = []
   \<and> enroll_all store0 [(student2, enr2), (student3, enr3), (student2, enr2\<lparr>enr_id := 33\<rparr>)]
       = store0\<lparr>enrollments := [enr2, enr3]\<rparr>
   \<and> length (filter (\<lambda>x. enr_student_id x = 2 \<and> enr_course_id x = 10)
        (enrollments (store0\<lparr>enrollments := [enr2, enr3]\<rparr>))) \<le> 1
   \<and> prole student2 = Student \<and> enrollment_exists store1 (pid student2) 10
   \<and> handleEnroll (Some student2) 10 99 5 store1
       = (Some \<lparr>title = ''Error'', description = Some UniqueViolation,
                variant = Some ''destructive''\<rparr>, store1)
   \<and> insert_enrollment store1 admin4 enr2 = Inl UniqueViolation
   \<and> insert_enrollment store1 lecturer5 enr2 = Inl InsufficientPrivilege"
proof -
  let ?reqs = "[(student2, enr2), (student3, enr3), (student2, enr2\<lparr>enr_id := 33\<rparr>)]"
  let ?d2 = "store0\<lparr>enrollments := [enr2, enr3]\<rparr>"
  have r: "enroll_all store0 ?reqs = ?d2"
    by code_simp
  have z: "enrollments store0 = []"
    by (simp add: store0_def)
  have s: "prole student2 = Student \<and> enrollment_exists store1 (pid student2) 10"
    by code_simp
  have x: "enrollment_exists store1 (enr_student_id enr2) (enr_course_id enr2)"
    by code_simp
  have c4: "enrollments_insert_check store1 admin4 enr2"
    and c5: "\<not> enrollments_insert_check store1 lecturer5 enr2"
    by code_simp+
  note t = enrollment_pair_unique_and_conflict
  have 1: "length (filter (\<lambda>x. enr_student_id x = 2 \<and> enr_course_id x = 10)
             (enrollments ?d2)) \<le> 1"
    using t [where ?d0.0 = store0 and reqs = ?reqs and student = 2 and courseId = 10,
        THEN conjunct1, THEN mp, OF z]
    unfolding r .
  from s t [where d = store1 and u = student2 and courseId = 10 and new_id = 99 and now = 5]
  have 2: "handleEnroll (Some student2) 10 99 5 store1
             = (Some \<lparr>title = ''Error'', description = Some UniqueViolation,
                      variant = Some ''destructive''\<rparr>, store1)"
    by blast
  have 3: "insert_enrollment store1 admin4 enr2 = Inl UniqueViolation"
    using t [where d = store1 and e = enr2 and p = admin4, THEN conjunct2, THEN conjunct1,
        THEN mp, OF x]
    unfolding if_P [OF c4] .
  have 4: "insert_enrollment store1 lecturer5 enr2 = Inl InsufficientPrivilege"
    using t [where d = store1 and e = enr2 and p = lecturer5, THEN conjunct2, THEN conjunct1,
        THEN mp, OF x]
    unfolding if_not_P [OF c5] .
  from z r 1 s 2 3 4 show ?thesis
    by (intro conjI) blast+
qed

section \<open>Updating graded submissions\<close>

lemma visible_courses_all: "visible_courses d p = courses d"
  by (simp add: visible_courses_def courses_select_def)

lemma mem_own_assignment_ids:
  "x \<in> set (own_assignment_ids d p)
     \<longleftrightarrow> (\<exists>a\<in>set (visible_assignments d p). \<exists>c\<in>set (courses d).
            asg_course_id a = crs_id c \<and> crs_created_by c = pid p \<and> x = asg_id a)"
  by (auto simp: own_assignment_ids_def visible_courses_all auth_uid_def)

lemma lecturer_sees_own_assignment:
  assumes "prole p = Lecturer" and "a \<in> set (assignments d)" and "c \<in> set (courses d)"
    and "asg_course_id a = crs_id c" and "crs_created_by c = pid p"
  shows "a \<in> set (visible_assignments d p)"
proof -
  have "asg_course_id a \<in> set (own_course_ids d p)"
    using assms(3-5) by (force simp: own_course_ids_def visible_courses_all auth_uid_def)
  then have "lecturers_can_manage_their_course_assignments d p a"
    using assms(1) by (simp add: lecturers_can_manage_their_course_assignments_def has_role_def)
  then show ?thesis
    using assms(2) by (simp add: visible_assignments_def assignments_select_def)
qed

lemma own_assignment_ids_iff:
  assumes "prole p = Lecturer"
  shows "sub_assignment_id s \<in> set (own_assignment_ids d p) = created_course_of d (pid p) s"
proof
  assume "sub_assignment_id s \<in> set (own_assignment_ids d p)"
  then obtain a c where "a \<in> set (visible_assignments d p)" "c \<in> set (courses d)"
    "asg_course_id a = crs_id c" "crs_created_by c = pid p" "sub_assignment_id s = asg_id a"
    unfolding mem_own_assignment_ids by blast
  then show "created_course_of d (pid p) s"
    unfolding created_course_of_def list_ex_iff visible_assignments_def by force
next
  assume "created_course_of d (pid p) s"
  then obtain a c where ac: "a \<in> set (assignments d)" "c \<in> set (courses d)"
    "asg_course_id a = crs_id c" "crs_created_by c = pid p" "sub_assignment_id s = asg_id a"
    unfolding created_course_of_def list_ex_iff by force
  from lecturer_sees_own_assignment [OF assms ac(1,2,3,4)] ac
  show "sub_assignment_id s \<in> set (own_assignment_ids d p)"
    unfolding mem_own_assignment_ids by blast
qed

lemma same_id_same_row:
  "distinct (map sub_id xs) \<Longrightarrow> s \<in> set xs \<Longrightarrow> t \<in> set xs \<Longrightarrow> sub_id t = sub_id s \<Longrightarrow> t = s"
  by (meson distinct_map inj_onD)

lemma update_submissions_no_target:
  assumes "submissions_ok d" and "patch_in_range c"
    and "\<And>t. t \<in> set (submissions d) \<Longrightarrow> \<not> submissions_update_target d p wh t"
  shows "update_submissions d p wh c = Inr d"
proof -
  have 1: "filter (submissions_update_target d p wh) (submissions d) = []"
    using assms(3) by (simp add: filter_empty_conv)
  have 2: "map (\<lambda>s. if submissions_update_target d p wh s then apply_patch c s else s)
             (submissions d) = submissions d"
    using assms(3) by (simp add: map_idI)
  show ?thesis
    using assms(1,2) unfolding update_submissions_def 1 2 submissions_ok_def by simp
qed

lemma update_submissions_keys_kept:
  assumes ok: "submissions_ok d" and range: "patch_in_range c" and refs: "patch_refs_ok d c"
    and keys: "set_id c = None" "set_assignment_id c = None" "set_student_id c = None"
    and tgt: "\<And>t. t \<in> set (submissions d) \<Longrightarrow> wh t \<Longrightarrow>
                 submissions_select d p t \<and> submissions_update_policies d p t
                 \<and> submissions_select d p (apply_patch c t)
                 \<and> submissions_update_policies d p (apply_patch c t)"
  shows "update_submissions d p wh c
           = Inr (d\<lparr>submissions :=
                    map (\<lambda>t. if wh t then apply_patch c t else t) (submissions d)\<rparr>)"
proof -
  let ?rows = "map (\<lambda>s. if submissions_update_target d p wh s then apply_patch c s else s)
                 (submissions d)"
  have k: "sub_id (apply_patch c t) = sub_id t
           \<and> sub_assignment_id (apply_patch c t) = sub_assignment_id t
           \<and> sub_student_id (apply_patch c t) = sub_student_id t" for t
    by (simp add: apply_patch_def keys)
  have rows: "?rows = map (\<lambda>t. if wh t then apply_patch c t else t) (submissions d)"
    using tgt by (auto simp: submissions_update_target_def)
  have ids: "map sub_id ?rows = map sub_id (submissions d)"
    using k by (simp add: comp_def if_distrib cong: if_cong)
  have pairs: "map (\<lambda>x. (sub_assignment_id x, sub_student_id x)) ?rows
                 = map (\<lambda>x. (sub_assignment_id x, sub_student_id x)) (submissions d)"
    using k by (simp add: comp_def if_distrib cong: if_cong)
  have chk: "list_all
               (\<lambda>s. submissions_update_policies d p (apply_patch c s)
                    \<and> submissions_select d p (apply_patch c s))
               (filter (submissions_update_target d p wh) (submissions d))"
    using tgt by (auto simp: list_all_iff submissions_update_target_def)
  show ?thesis
    unfolding update_submissions_def Let_def ids pairs
    using chk ok rows range refs by (simp add: submissions_ok_def)
qed

lemma grading_update_keys:
  "set_id (grading_update p g fb now) = None"
  "set_assignment_id (grading_update p g fb now) = None"
  "set_student_id (grading_update p g fb now) = None"
  by (simp_all add: grading_update_def no_change_def)

lemma grading_update_in_range: "patch_in_range (grading_update p g fb now) = int4 g"
  by (simp add: patch_in_range_def grading_update_def no_change_def int4_or_null_def)

lemma grading_update_refs:
  "patch_refs_ok d (grading_update p g fb now) = (pid p \<in> set (users d))"
  by (simp add: patch_refs_ok_def grading_update_def no_change_def user_or_null_def)

lemma grading_update_assignment:
  "sub_assignment_id (apply_patch (grading_update p g fb now) t) = sub_assignment_id t"
  by (simp add: apply_patch_def grading_update_keys)

text \<open>
  C3, as the policies have it, for a submission with a grade in a store that satisfies
  its constraints. An update of the row by a student, the submitting one included,
  and by a lecturer who did not create the course of its assignment, changes
  nothing: no update policy admits the row, the statement skips it and answers
  without an error. The grading update by the lecturer who created the course, or by
  an admin, whose account exists, succeeds for a grade that fits \<^verbatim>\<open>INTEGER\<close> and
  rewrites the row; for a grade that does not fit it is refused.
\<close>

theorem graded_submission_updates:
  assumes "submissions_ok d" and "s \<in> set (submissions d)" and "sub_grade s \<noteq> None"
  shows "(prole p = Student \<and> patch_in_range c
            \<longrightarrow> update_submissions d p (\<lambda>t. sub_id t = sub_id s) c = Inr d)
       \<and> (prole p = Lecturer \<and> \<not> created_course_of d (pid p) s \<and> patch_in_range c
            \<longrightarrow> update_submissions d p (\<lambda>t. sub_id t = sub_id s) c = Inr d)
       \<and> ((prole p = Lecturer \<and> created_course_of d (pid p) s \<or> prole p = Admin)
           \<and> int4 g \<and> pid p \<in> set (users d)
            \<longrightarrow> grade_submission d p (sub_id s) g fb now
                 = Inr (d\<lparr>submissions :=
                          map (\<lambda>t. if sub_id t = sub_id s
                                    then apply_patch (grading_update p g fb now) t else t)
                            (submissions d)\<rparr>))
       \<and> ((prole p = Lecturer \<and> created_course_of d (pid p) s \<or> prole p = Admin)
           \<and> \<not> int4 g
            \<longrightarrow> grade_submission d p (sub_id s) g fb now = Inl NumericValueOutOfRange)"
proof -
  have same: "t = s" if "t \<in> set (submissions d)" "sub_id t = sub_id s" for t
    using same_id_same_row [of "submissions d" s t] assms that
    by (simp add: submissions_ok_def)
  have 1: "prole p = Student \<and> patch_in_range c
            \<longrightarrow> update_submissions d p (\<lambda>t. sub_id t = sub_id s) c = Inr d"
  proof
    assume r: "prole p = Student \<and> patch_in_range c"
    have "\<not> submissions_update_target d p (\<lambda>t. sub_id t = sub_id s) t"
      if "t \<in> set (submissions d)" for t
      using same [OF that] assms(3) r
      by (auto simp: submissions_update_target_def submissions_update_policies_def
          students_can_update_their_own_ungraded_submissions_def
          lecturers_can_grade_submissions_for_their_assignments_def
          admins_can_manage_all_submissions_def has_role_def)
    with assms(1) r show "update_submissions d p (\<lambda>t. sub_id t = sub_id s) c = Inr d"
      by (intro update_submissions_no_target) simp_all
  qed
  have 2: "prole p = Lecturer \<and> \<not> created_course_of d (pid p) s \<and> patch_in_range c
            \<longrightarrow> update_submissions d p (\<lambda>t. sub_id t = sub_id s) c = Inr d"
  proof
    assume r: "prole p = Lecturer \<and> \<not> created_course_of d (pid p) s \<and> patch_in_range c"
    have "\<not> submissions_update_target d p (\<lambda>t. sub_id t = sub_id s) t"
      if "t \<in> set (submissions d)" for t
      using same [OF that] assms(3) r own_assignment_ids_iff [of p s d]
      by (auto simp: submissions_update_target_def submissions_update_policies_def
          students_can_update_their_own_ungraded_submissions_def
          lecturers_can_grade_submissions_for_their_assignments_def
          admins_can_manage_all_submissions_def has_role_def)
    with assms(1) r show "update_submissions d p (\<lambda>t. sub_id t = sub_id s) c = Inr d"
      by (intro update_submissions_no_target) simp_all
  qed
  have 3: "(prole p = Lecturer \<and> created_course_of d (pid p) s \<or> prole p = Admin)
           \<and> int4 g \<and> pid p \<in> set (users d)
            \<longrightarrow> grade_submission d p (sub_id s) g fb now
                 = Inr (d\<lparr>submissions :=
                          map (\<lambda>t. if sub_id t = sub_id s
                                    then apply_patch (grading_update p g fb now) t else t)
                            (submissions d)\<rparr>)"
  proof
    assume r: "(prole p = Lecturer \<and> created_course_of d (pid p) s \<or> prole p = Admin)
           \<and> int4 g \<and> pid p \<in> set (users d)"
    have pol: "submissions_select d p t \<and> submissions_update_policies d p t"
      if "sub_assignment_id t = sub_assignment_id s" for t
      using r that own_assignment_ids_iff [of p s d] own_assignment_ids_iff [of p t d]
      by (auto simp: submissions_select_def submissions_update_policies_def
          lecturers_can_grade_submissions_for_their_assignments_def
          lecturers_can_view_submissions_for_their_assignments_def
          admins_can_manage_all_submissions_def has_role_def)
    have "update_submissions d p (\<lambda>t. sub_id t = sub_id s) (grading_update p g fb now)
           = Inr (d\<lparr>submissions :=
                    map (\<lambda>t. if sub_id t = sub_id s
                              then apply_patch (grading_update p g fb now) t else t)
                      (submissions d)\<rparr>)"
    proof (rule update_submissions_keys_kept [OF assms(1)])
      show "patch_in_range (grading_update p g fb now)"
        using r by (simp add: grading_update_in_range)
      show "patch_refs_ok d (grading_update p g fb now)"
        using r by (simp add: grading_update_refs)
      show "set_id (grading_update p g fb now) = None"
        "set_assignment_id (grading_update p g fb now) = None"
        "set_student_id (grading_update p g fb now) = None"
        by (rule grading_update_keys)+
    next
      fix t assume "t \<in> set (submissions d)" "sub_id t = sub_id s"
      then have "t = s" by (rule same)
      then show "submissions_select d p t \<and> submissions_update_policies d p t
                 \<and> submissions_select d p (apply_patch (grading_update p g fb now) t)
                 \<and> submissions_update_policies d p (apply_patch (grading_update p g fb now) t)"
        using pol [of s] pol [of "apply_patch (grading_update p g fb now) s"]
        by (simp add: grading_update_assignment)
    qed
    then show "grade_submission d p (sub_id s) g fb now
                 = Inr (d\<lparr>submissions :=
                          map (\<lambda>t. if sub_id t = sub_id s
                                    then apply_patch (grading_update p g fb now) t else t)
                            (submissions d)\<rparr>)"
      by (simp add: grade_submission_def)
  qed
  have 4: "(prole p = Lecturer \<and> created_course_of d (pid p) s \<or> prole p = Admin)
           \<and> \<not> int4 g
            \<longrightarrow> grade_submission d p (sub_id s) g fb now = Inl NumericValueOutOfRange"
    by (simp add: grade_submission_def update_submissions_def Let_def grading_update_in_range)
  from 1 2 3 4 show ?thesis
    by (intro conjI)
qed

theorem graded_submission_updates_witness:
  "submissions_ok store1 \<and> sub40 \<in> set (submissions store1) \<and> sub_grade sub40 \<noteq> None
   \<and> prole student2 = Student \<and> patch_in_range (no_change\<lparr>set_content := Some ''new''\<rparr>)
   \<and> update_submissions store1 student2 (\<lambda>t. sub_id t = sub_id sub40)
        (no_change\<lparr>set_content := Some ''new''\<rparr>) = Inr store1
   \<and> prole lecturer5 = Lecturer \<and> \<not> created_course_of store1 (pid lecturer5) sub40
   \<and> patch_in_range (no_change\<lparr>set_grade := Some (Some 0)\<rparr>)
   \<and> update_submissions store1 lecturer5 (\<lambda>t. sub_id t = sub_id sub40)
        (no_change\<lparr>set_grade := Some (Some 0)\<rparr>) = Inr store1
   \<and> prole lecturer1 = Lecturer \<and> created_course_of store1 (pid lecturer1) sub40
   \<and> int4 90 \<and> pid lecturer1 \<in> set (users store1)
   \<and> grade_submission store1 lecturer1 (sub_id sub40) 90 ''ok'' 9
       = Inr (store1\<lparr>submissions :=
                map (\<lambda>t. if sub_id t = sub_id sub40
                          then apply_patch (grading_update lecturer1 90 ''ok'' 9) t else t)
                  (submissions store1)\<rparr>)
   \<and> prole admin4 = Admin \<and> pid admin4 \<in> set (users store1)
   \<and> grade_submission store1 admin4 (sub_id sub40) 90 ''ok'' 9
       = Inr (store1\<lparr>submissions :=
                map (\<lambda>t. if sub_id t = sub_id sub40
                          then apply_patch (grading_update admin4 90 ''ok'' 9) t else t)
                  (submissions store1)\<rparr>)
   \<and> \<not> int4 2147483648
   \<and> grade_submission store1 lecturer1 (sub_id sub40) 2147483648 ''ok'' 9
       = Inl NumericValueOutOfRange"
proof -
  have h: "submissions_ok store1" "sub40 \<in> set (submissions store1)" "sub_grade sub40 \<noteq> None"
    by code_simp+
  have a: "prole student2 = Student \<and> patch_in_range (no_change\<lparr>set_content := Some ''new''\<rparr>)"
    by code_simp
  have b: "prole lecturer5 = Lecturer \<and> \<not> created_course_of store1 (pid lecturer5) sub40
           \<and> patch_in_range (no_change\<lparr>set_grade := Some (Some 0)\<rparr>)"
    by code_simp
  have c: "(prole lecturer1 = Lecturer \<and> created_course_of store1 (pid lecturer1) sub40
            \<or> prole lecturer1 = Admin)
           \<and> int4 90 \<and> pid lecturer1 \<in> set (users store1)"
    by code_simp
  have e: "(prole admin4 = Lecturer \<and> created_course_of store1 (pid admin4) sub40
            \<or> prole admin4 = Admin)
           \<and> int4 90 \<and> pid admin4 \<in> set (users store1)"
    by code_simp
  have o: "(prole lecturer1 = Lecturer \<and> created_course_of store1 (pid lecturer1) sub40
            \<or> prole lecturer1 = Admin)
           \<and> \<not> int4 2147483648"
    by code_simp
  have c': "prole lecturer1 = Lecturer" "created_course_of store1 (pid lecturer1) sub40"
    "int4 90" "pid lecturer1 \<in> set (users store1)"
    and e': "prole admin4 = Admin" "pid admin4 \<in> set (users store1)"
    and o': "\<not> int4 2147483648"
    by code_simp+
  note t = graded_submission_updates [OF h]
  have 1: "update_submissions store1 student2 (\<lambda>t. sub_id t = sub_id sub40)
             (no_change\<lparr>set_content := Some ''new''\<rparr>) = Inr store1"
    by (rule t [where p = student2, THEN conjunct1, THEN mp, OF a])
  have 2: "update_submissions store1 lecturer5 (\<lambda>t. sub_id t = sub_id sub40)
             (no_change\<lparr>set_grade := Some (Some 0)\<rparr>) = Inr store1"
    by (rule t [where p = lecturer5, THEN conjunct2, THEN conjunct1, THEN mp, OF b])
  note 3 = t [where p = lecturer1 and g = 90 and fb = "''ok''" and now = 9,
      THEN conjunct2, THEN conjunct2, THEN conjunct1, THEN mp, OF c]
  note 4 = t [where p = admin4 and g = 90 and fb = "''ok''" and now = 9,
      THEN conjunct2, THEN conjunct2, THEN conjunct1, THEN mp, OF e]
  note 5 = t [where p = lecturer1 and g = 2147483648 and fb = "''ok''" and now = 9,
      THEN conjunct2, THEN conjunct2, THEN conjunct2, THEN mp, OF o]
  from h a 1 b 2 c' 3 e' 4 o' 5 show ?thesis
    by (intro conjI) (blast+)?
qed

text \<open>
  C3 as stated fails: student 2 updates the content of the graded submission 40; the
  answer is not an error, it is the unchanged store.
\<close>

theorem student_update_of_graded_is_silent:
  "prole student2 = Student \<and> sub_student_id sub40 = pid student2 \<and> sub_grade sub40 = Some 85
   \<and> sub40 \<in> set (submissions store1)
   \<and> update_submissions store1 student2 (\<lambda>t. sub_id t = sub_id sub40)
        (no_change\<lparr>set_content := Some ''new''\<rparr>) = Inr store1"
  by code_simp

section \<open>Grading\<close>

lemma update_submissions_Inr:
  "update_submissions d p wh c = Inr d' \<Longrightarrow>
   d' = d\<lparr>submissions :=
           map (\<lambda>s. if submissions_update_target d p wh s then apply_patch c s else s)
             (submissions d)\<rparr>"
  by (simp add: update_submissions_def Let_def split: if_splits)

lemma grading_update_fully: "fully_graded (apply_patch (grading_update user g fb now) s)"
  by (simp add: fully_graded_def apply_patch_def grading_update_def no_change_def)

lemma fully_graded_together: "fully_graded s \<Longrightarrow> graded_together s"
  by (auto simp: fully_graded_def graded_together_def)

text \<open>
  C8, as the grading update has it: the update leaves every row as it was or, for a
  row with the given id, replaces it by the row with grade, graded\_at and graded\_by
  all set. A store in which every submission has all three or none keeps that
  property.
\<close>

theorem grading_update_sets_fields_together:
  assumes "grade_submission d user sid g fb now = Inr d'"
  shows "length (submissions d') = length (submissions d)
       \<and> (\<forall>i<length (submissions d).
            submissions d' ! i = submissions d ! i
            \<or> (sub_id (submissions d ! i) = sid
               \<and> submissions d' ! i
                   = apply_patch (grading_update user g fb now) (submissions d ! i)
               \<and> fully_graded (submissions d' ! i)))
       \<and> (list_all graded_together (submissions d)
            \<longrightarrow> list_all graded_together (submissions d'))"
proof -
  let ?tgt = "submissions_update_target d user (\<lambda>s. sub_id s = sid)"
  let ?f = "apply_patch (grading_update user g fb now)"
  from assms
  have "update_submissions d user (\<lambda>s. sub_id s = sid) (grading_update user g fb now) = Inr d'"
    by (simp add: grade_submission_def)
  from update_submissions_Inr [OF this]
  have rows: "submissions d' = map (\<lambda>s. if ?tgt s then ?f s else s) (submissions d)"
    by simp
  have 1: "length (submissions d') = length (submissions d)"
    by (simp add: rows)
  have 2: "submissions d' ! i = submissions d ! i
            \<or> (sub_id (submissions d ! i) = sid
               \<and> submissions d' ! i = ?f (submissions d ! i)
               \<and> fully_graded (submissions d' ! i))"
    if "i < length (submissions d)" for i
    using that by (simp add: rows grading_update_fully submissions_update_target_def)
  have 3: "list_all graded_together (submissions d')"
    if "list_all graded_together (submissions d)"
    using that
    by (auto simp: rows list_all_iff intro: fully_graded_together grading_update_fully)
  from 1 2 3 show ?thesis by blast
qed

theorem grading_update_sets_fields_together_witness:
  "grade_submission store2 lecturer1 41 70 ''fine'' 9
      = Inr (store2\<lparr>submissions :=
               [sub40, apply_patch (grading_update lecturer1 70 ''fine'' 9) sub41]\<rparr>)
   \<and> \<not> fully_graded sub41
   \<and> fully_graded (submissions (store2\<lparr>submissions :=
                       [sub40, apply_patch (grading_update lecturer1 70 ''fine'' 9) sub41]\<rparr>) ! 1)
   \<and> list_all graded_together (submissions store2)
   \<and> list_all graded_together
       (submissions (store2\<lparr>submissions :=
                       [sub40, apply_patch (grading_update lecturer1 70 ''fine'' 9) sub41]\<rparr>))"
proof -
  let ?d' = "store2\<lparr>submissions :=
               [sub40, apply_patch (grading_update lecturer1 70 ''fine'' 9) sub41]\<rparr>"
  have g: "grade_submission store2 lecturer1 41 70 ''fine'' 9 = Inr ?d'"
    by code_simp
  have n: "\<not> fully_graded sub41" "list_all graded_together (submissions store2)"
    "(1::nat) < length (submissions store2)" "submissions ?d' ! 1 \<noteq> submissions store2 ! 1"
    by code_simp+
  from grading_update_sets_fields_together [OF g] n g show ?thesis by blast
qed

text \<open>
  C8 as stated fails: neither the table nor the lecturer's update policy ties the
  three columns. Lecturer 1, who created course 10, sets the grade of submission 41
  and nothing else; the update succeeds and leaves the row with a grade and with
  neither graded\_at nor graded\_by.
\<close>

theorem owner_sets_grade_alone:
  "prole lecturer1 = Lecturer \<and> created_course_of store2 (pid lecturer1) sub41
   \<and> graded_together sub41
   \<and> update_submissions store2 lecturer1 (\<lambda>t. sub_id t = 41)
        (no_change\<lparr>set_grade := Some (Some 70)\<rparr>)
      = Inr (store2\<lparr>submissions := [sub40, sub41\<lparr>sub_grade := Some 70\<rparr>]\<rparr>)
   \<and> sub_grade (sub41\<lparr>sub_grade := Some 70\<rparr>) = Some 70
   \<and> sub_graded_at (sub41\<lparr>sub_grade := Some 70\<rparr>) = None
   \<and> sub_graded_by (sub41\<lparr>sub_grade := Some 70\<rparr>) = None
   \<and> \<not> graded_together (sub41\<lparr>sub_grade := Some 70\<rparr>)"
  by code_simp

section \<open>Notifications\<close>

lemma update_notifications_Inr:
  "update_notifications d p wh f = Inr d' \<Longrightarrow>
   d' = d\<lparr>notifications :=
           map (\<lambda>n. if notifications_update_target d p wh n then f n else n) (notifications d)\<rparr>
   \<and> list_all (\<lambda>n. notifications_update_policies d p (f n) \<and> notifications_select d p (f n))
        (filter (notifications_update_target d p wh) (notifications d))"
  by (simp add: update_notifications_def Let_def split: if_splits)

lemma notifications_update_target_iff:
  "notifications_update_target d p wh n = (wh n \<and> ntf_user_id n = pid p)"
  by (auto simp: notifications_update_target_def notifications_select_def
      notifications_update_policies_def users_can_view_their_own_notifications_def
      users_can_update_their_own_notifications_def auth_uid_def)

text \<open>
  C7, as the policies have it: no principal's insert passes, since the table has no
  insert policy. An update changes exactly the rows selected by its \<^verbatim>\<open>WHERE\<close> clause
  whose \<^verbatim>\<open>user_id\<close> is the principal's id, and only if each stays the principal's.
  Which columns change is not restricted: an update that keeps \<^verbatim>\<open>id\<close> and
  \<^verbatim>\<open>user_id\<close> succeeds whatever else it writes.
\<close>

theorem notifications_insert_and_update:
  "insert_notification d p n = Inl InsufficientPrivilege
   \<and> (update_notifications d p wh f = Inr d'
        \<longrightarrow> notifications d'
              = map (\<lambda>n. if wh n \<and> ntf_user_id n = pid p then f n else n) (notifications d)
            \<and> list_all (\<lambda>n. wh n \<and> ntf_user_id n = pid p \<longrightarrow> ntf_user_id (f n) = pid p)
                (notifications d))
   \<and> (distinct (map ntf_id (notifications d))
       \<and> (\<forall>n. ntf_id (f n) = ntf_id n \<and> ntf_user_id (f n) = ntf_user_id n)
        \<longrightarrow> update_notifications d p wh f
             = Inr (d\<lparr>notifications :=
                      map (\<lambda>n. if wh n \<and> ntf_user_id n = pid p then f n else n)
                        (notifications d)\<rparr>))"
proof (intro conjI impI)
  show "insert_notification d p n = Inl InsufficientPrivilege"
    by (simp add: insert_notification_def notifications_insert_check_def)
next
  assume "update_notifications d p wh f = Inr d'"
  from update_notifications_Inr [OF this]
  have rows: "notifications d'
          = map (\<lambda>n. if notifications_update_target d p wh n then f n else n) (notifications d)"
    and chk: "list_all (\<lambda>n. notifications_update_policies d p (f n))
        (filter (notifications_update_target d p wh) (notifications d))"
    by (simp_all add: list_all_iff)
  from rows show "notifications d'
          = map (\<lambda>n. if wh n \<and> ntf_user_id n = pid p then f n else n) (notifications d)"
    by (simp only: notifications_update_target_iff)
  from chk show "list_all (\<lambda>n. wh n \<and> ntf_user_id n = pid p \<longrightarrow> ntf_user_id (f n) = pid p)
           (notifications d)"
    by (simp add: notifications_update_target_iff list_all_iff
        notifications_update_policies_def users_can_update_their_own_notifications_def
        auth_uid_def)
next
  assume a: "distinct (map ntf_id (notifications d))
       \<and> (\<forall>n. ntf_id (f n) = ntf_id n \<and> ntf_user_id (f n) = ntf_user_id n)"
  let ?rows = "map (\<lambda>n. if notifications_update_target d p wh n then f n else n)
                 (notifications d)"
  have ids: "map ntf_id ?rows = map ntf_id (notifications d)"
    using a by (simp add: comp_def if_distrib cong: if_cong)
  have chk: "list_all
       (\<lambda>n. notifications_update_policies d p (f n) \<and> notifications_select d p (f n))
       (filter (notifications_update_target d p wh) (notifications d))"
    using a
    by (auto simp: list_all_iff notifications_update_target_iff notifications_select_def
      notifications_update_policies_def users_can_view_their_own_notifications_def
      users_can_update_their_own_notifications_def auth_uid_def)
  show "update_notifications d p wh f
             = Inr (d\<lparr>notifications :=
                      map (\<lambda>n. if wh n \<and> ntf_user_id n = pid p then f n else n)
                        (notifications d)\<rparr>)"
    unfolding update_notifications_def Let_def ids
    using chk a by (simp add: notifications_update_target_iff)
qed

theorem notifications_insert_and_update_witness:
  "insert_notification store1 student2 ntf50 = Inl InsufficientPrivilege
   \<and> distinct (map ntf_id (notifications store1))
   \<and> update_notifications store1 student2 (\<lambda>n. ntf_id n = 50) (\<lambda>n. n\<lparr>ntf_read := True\<rparr>)
       = Inr (store1\<lparr>notifications := [ntf50\<lparr>ntf_read := True\<rparr>]\<rparr>)
   \<and> update_notifications store1 student3 (\<lambda>n. ntf_id n = 50) (\<lambda>n. n\<lparr>ntf_read := True\<rparr>)
       = Inr store1"
proof -
  have dd: "distinct (map ntf_id (notifications store1))" by code_simp
  have k: "\<forall>n. ntf_id (n\<lparr>ntf_read := True\<rparr>) = ntf_id n
              \<and> ntf_user_id (n\<lparr>ntf_read := True\<rparr>) = ntf_user_id n" by simp
  have r2: "store1\<lparr>notifications :=
                      map (\<lambda>n. if ntf_id n = 50 \<and> ntf_user_id n = pid student2
                                then n\<lparr>ntf_read := True\<rparr> else n)
                        (notifications store1)\<rparr>
            = store1\<lparr>notifications := [ntf50\<lparr>ntf_read := True\<rparr>]\<rparr>" by code_simp
  have r3: "store1\<lparr>notifications :=
                      map (\<lambda>n. if ntf_id n = 50 \<and> ntf_user_id n = pid student3
                                then n\<lparr>ntf_read := True\<rparr> else n)
                        (notifications store1)\<rparr>
            = store1" by code_simp
  note t = notifications_insert_and_update [where d = store1 and wh = "\<lambda>n. ntf_id n = 50"
      and f = "\<lambda>n. n\<lparr>ntf_read := True\<rparr>"]
  have 1: "insert_notification store1 student2 ntf50 = Inl InsufficientPrivilege"
    by (rule t [where p = student2 and n = ntf50, THEN conjunct1])
  have 2: "update_notifications store1 student2 (\<lambda>n. ntf_id n = 50)
              (\<lambda>n. n\<lparr>ntf_read := True\<rparr>)
            = Inr (store1\<lparr>notifications := [ntf50\<lparr>ntf_read := True\<rparr>]\<rparr>)"
    using t [where p = student2, THEN conjunct2, THEN conjunct2, THEN mp, OF conjI [OF dd k]]
    by (simp only: r2)
  have 3: "update_notifications store1 student3 (\<lambda>n. ntf_id n = 50)
              (\<lambda>n. n\<lparr>ntf_read := True\<rparr>) = Inr store1"
    using t [where p = student3, THEN conjunct2, THEN conjunct2, THEN mp, OF conjI [OF dd k]]
    by (simp only: r3)
  from 1 dd 2 3 show ?thesis
    by (intro conjI)
qed

text \<open>
  C7 as stated fails: student 2 rewrites the title and the message of the
  notification 50, not the read flag.
\<close>

theorem owner_edits_notification_text:
  "ntf_user_id ntf50 = pid student2 \<and> ntf50 \<in> set (notifications store1)
   \<and> update_notifications store1 student2 (\<lambda>n. ntf_id n = 50)
        (\<lambda>n. n\<lparr>ntf_message := ''edited'', ntf_title := ''Edited''\<rparr>)
      = Inr (store1\<lparr>notifications :=
               [ntf50\<lparr>ntf_message := ''edited'', ntf_title := ''Edited''\<rparr>]\<rparr>)"
  by code_simp

section \<open>Notification fan-out\<close>

lemma distinct_count_one:
  "distinct xs \<Longrightarrow> length (filter (\<lambda>x. x = u) xs) = (if u \<in> set xs then 1 else 0)"
  by (induction xs) auto

lemma fan_out_rows_for:
  "length (filter (\<lambda>n. ntf_user_id n = u) (fan_out_rows d m gen ttl msg now))
     = (if u \<in> set (recipients d m) then 1 else 0)"
proof -
  let ?rs = "remdups (recipients d m)"
  have "map ntf_user_id (fan_out_rows d m gen ttl msg now) = map snd (enumerate 0 ?rs)"
    by (simp add: fan_out_rows_def comp_def case_prod_beta)
  also have "\<dots> = ?rs"
    by (simp add: map_snd_enumerate)
  finally have users: "map ntf_user_id (fan_out_rows d m gen ttl msg now) = ?rs" .
  have "length (filter (\<lambda>n. ntf_user_id n = u) (fan_out_rows d m gen ttl msg now))
          = length (filter (\<lambda>x. x = u) (map ntf_user_id (fan_out_rows d m gen ttl msg now)))"
    by (simp add: filter_map comp_def)
  also have "\<dots> = (if u \<in> set ?rs then 1 else 0)"
    unfolding users by (rule distinct_count_one) simp
  finally show ?thesis by simp
qed

text \<open>
  C9: for every triggering mutation, the fan-out adds exactly one notification row
  for each derived recipient and none for anybody else, however often the recipient
  is derived.
\<close>

theorem fan_out_one_per_recipient:
  "length (filter (\<lambda>n. ntf_user_id n = u) (notifications (fan_out d m gen ttl msg now)))
     = length (filter (\<lambda>n. ntf_user_id n = u) (notifications d))
       + (if u \<in> set (recipients d m) then 1 else 0)"
  by (simp add: fan_out_def fan_out_rows_for)

theorem fan_out_one_per_recipient_witness:
  "recipients store1 (AssignmentCreated hw1) = [2]
   \<and> length (filter (\<lambda>n. ntf_user_id n = 2) (notifications store1)) = 1
   \<and> length (filter (\<lambda>n. ntf_user_id n = 2)
        (notifications (fan_out store1 (AssignmentCreated hw1) (\<lambda>k. 100 + k)
           ''New assignment'' ''HW1'' 9))) = 2
   \<and> length (filter (\<lambda>n. ntf_user_id n = 6)
        (notifications (fan_out store1 (AssignmentCreated hw1) (\<lambda>k. 100 + k)
           ''New assignment'' ''HW1'' 9))) = 0"
proof -
  let ?m = "AssignmentCreated hw1"
  have r: "recipients store1 ?m = [2]"
    by code_simp
  have m2: "2 \<in> set (recipients store1 ?m)" and m6: "6 \<notin> set (recipients store1 ?m)"
    by code_simp+
  have o2: "length (filter (\<lambda>n. ntf_user_id n = 2) (notifications store1)) = 1"
    and o6: "length (filter (\<lambda>n. ntf_user_id n = 6) (notifications store1)) = 0"
    by code_simp+
  have 2: "length (filter (\<lambda>n. ntf_user_id n = 2)
        (notifications (fan_out store1 ?m (\<lambda>k. 100 + k) ''New assignment'' ''HW1'' 9))) = 2"
    using fan_out_one_per_recipient [of 2 store1 ?m "\<lambda>k. 100 + k" "''New assignment''" "''HW1''" 9]
    unfolding o2 if_P [OF m2] by (simp only: one_add_one)
  have 6: "length (filter (\<lambda>n. ntf_user_id n = 6)
        (notifications (fan_out store1 ?m (\<lambda>k. 100 + k) ''New assignment'' ''HW1'' 9))) = 0"
    using fan_out_one_per_recipient [of 6 store1 ?m "\<lambda>k. 100 + k" "''New assignment''" "''HW1''" 9]
    unfolding o6 if_not_P [OF m6] by (simp only: add_0)
  from r o2 2 6 show ?thesis
    by (intro conjI)
qed

section \<open>Numbers\<close>

lemma round_half_even_error: "\<bar>rat_of_int (round_half_even x) - x\<bar> \<le> 1 / 2"
proof -
  define f where "f = \<lfloor>x\<rfloor>"
  define r where "r = x - rat_of_int f"
  have r: "0 \<le> r" "r < 1"
    unfolding r_def f_def by linarith+
  have x: "x = rat_of_int f + r"
    by (simp add: r_def)
  have e: "round_half_even x
             = (if r < 1 / 2 then f else if 1 / 2 < r then f + 1
                else if even f then f else f + 1)"
    by (simp add: round_half_even_def Let_def r_def f_def)
  consider "r < 1 / 2" | "1 / 2 < r" | "r = 1 / 2"
    by linarith
  then show ?thesis
  proof cases
    case 1
    with e have "rat_of_int (round_half_even x) - x = - r"
      by (simp add: r_def)
    with r 1 show ?thesis by simp
  next
    case 2
    with e have "rat_of_int (round_half_even x) - x = 1 - r"
      by (simp add: r_def)
    with r 2 show ?thesis by simp
  next
    case 3
    with e have "rat_of_int (round_half_even x) - x = - r
                 \<or> rat_of_int (round_half_even x) - x = 1 - r"
      by (simp add: r_def)
    with 3 show ?thesis by auto
  qed
qed

lemma round_half_even_of_int: "round_half_even (rat_of_int i) = i"
  by (simp add: round_half_even_def)

lemma bitlen_powi:
  assumes "0 < n"
  shows "2 powi (bitlen n - 1) \<le> rat_of_int n" and "rat_of_int n < 2 powi (bitlen n)"
proof -
  from bitlen_bounds [OF assms]
  have lo: "2 ^ nat (bitlen n - 1) \<le> n" and hi: "n < 2 ^ nat (bitlen n)"
    by simp_all
  have b: "1 \<le> bitlen n"
    using assms bitlen_eq_zero_iff [of n] bitlen_nonneg [of n] by linarith
  have "rat_of_int (2 ^ nat (bitlen n - 1)) \<le> rat_of_int n"
    using lo by (simp only: of_int_le_iff)
  then show "2 powi (bitlen n - 1) \<le> rat_of_int n"
    using b by (simp add: power_int_def)
  have "rat_of_int n < rat_of_int (2 ^ nat (bitlen n))"
    using hi by (simp only: of_int_less_iff)
  then show "rat_of_int n < 2 powi (bitlen n)"
    using b by (simp add: power_int_def)
qed

lemma binary64_exponent_bracket:
  assumes "0 < a"
  shows "2 ^ 52 \<le> a / (2 powi binary64_exponent a)"
    and "a / (2 powi binary64_exponent a) < 2 ^ 53"
proof -
  obtain n d where q: "quotient_of a = (n, d)"
    by (cases "quotient_of a")
  then have d: "0 < d" and a: "a = rat_of_int n / rat_of_int d"
    by (auto dest: quotient_of_denom_pos quotient_of_div)
  with assms have n: "0 < n"
    by (simp add: zero_less_divide_iff)
  let ?k = "bitlen n - bitlen d - 53"
  have p [simp]: "(0::rat) < 2 powi k" for k
    by (simp add: power_int_def)
  have lo: "2 powi (bitlen n - bitlen d - 1) < a"
  proof -
    have "2 powi (bitlen n - bitlen d - 1) = (2::rat) powi ((bitlen n - 1) - bitlen d)"
      by (simp add: algebra_simps)
    also have "\<dots> = 2 powi (bitlen n - 1) / 2 powi (bitlen d)"
      by (rule power_int_diff) simp
    also have "\<dots> \<le> rat_of_int n / 2 powi (bitlen d)"
      using bitlen_powi(1) [OF n] by (simp add: divide_right_mono)
    also have "\<dots> < rat_of_int n / rat_of_int d"
      using bitlen_powi(2) [OF d] n d by (simp add: divide_strict_left_mono)
    finally show ?thesis by (simp add: a)
  qed
  have hi: "a < 2 powi (bitlen n - bitlen d + 1)"
  proof -
    have "a < 2 powi (bitlen n) / rat_of_int d"
      unfolding a using bitlen_powi(2) [OF n] d by (simp add: divide_strict_right_mono)
    also have "\<dots> \<le> 2 powi (bitlen n) / 2 powi (bitlen d - 1)"
      using bitlen_powi(1) [OF d] d by (simp add: divide_left_mono)
    also have "\<dots> = 2 powi (bitlen n - (bitlen d - 1))"
      by (rule power_int_diff [symmetric]) simp
    also have "\<dots> = 2 powi (bitlen n - bitlen d + 1)"
      by (simp add: algebra_simps)
    finally show ?thesis .
  qed
  have lo': "2 ^ 52 < a / 2 powi ?k"
  proof -
    have "2 powi (bitlen n - bitlen d - 1) / 2 powi ?k
            = (2::rat) powi ((bitlen n - bitlen d - 1) - ?k)"
      by (rule power_int_diff [symmetric]) simp
    also have "\<dots> = 2 ^ 52"
      by (simp add: power_int_def)
    finally have "(2::rat) ^ 52 = 2 powi (bitlen n - bitlen d - 1) / 2 powi ?k"
      by simp
    also have "\<dots> < a / 2 powi ?k"
      using lo by (simp add: divide_strict_right_mono)
    finally show ?thesis .
  qed
  have hi': "a / 2 powi ?k < 2 ^ 54"
  proof -
    have "a / 2 powi ?k < 2 powi (bitlen n - bitlen d + 1) / 2 powi ?k"
      using hi by (simp add: divide_strict_right_mono)
    also have "\<dots> = (2::rat) powi ((bitlen n - bitlen d + 1) - ?k)"
      by (rule power_int_diff [symmetric]) simp
    also have "\<dots> = 2 ^ 54"
      by (simp add: power_int_def)
    finally show ?thesis .
  qed
  have "2 powi (?k + 1) = 2 powi ?k * (2::rat)"
    by (subst power_int_add) simp_all
  then have half: "a / 2 powi (?k + 1) = a / 2 powi ?k / 2"
    by simp
  show "2 ^ 52 \<le> a / (2 powi binary64_exponent a)"
    using lo' hi' half by (auto simp: binary64_exponent_def q Let_def)
  show "a / (2 powi binary64_exponent a) < 2 ^ 53"
    using lo' hi' half by (auto simp: binary64_exponent_def q Let_def)
qed

lemma binary64_error: "\<bar>binary64 x - x\<bar> \<le> \<bar>x\<bar> / 2 ^ 53"
proof (cases "x = 0")
  case True
  then show ?thesis by (simp add: binary64_def)
next
  case False
  define P :: rat where "P = 2 powi binary64_exponent \<bar>x\<bar>"
  define m where "m = round_half_even (\<bar>x\<bar> / P)"
  have P: "0 < P"
    by (simp add: P_def power_int_def)
  from False have a: "0 < \<bar>x\<bar>"
    by simp
  have b: "binary64 x = sgn x * (rat_of_int m * P)"
    using False by (simp add: binary64_def Let_def P_def m_def)
  have "2 ^ 52 \<le> \<bar>x\<bar> / P"
    unfolding P_def by (rule binary64_exponent_bracket(1) [OF a])
  with P have Ple: "P * 2 ^ 52 \<le> \<bar>x\<bar>"
    by (simp add: pos_le_divide_eq mult.commute)
  have "\<bar>rat_of_int m - \<bar>x\<bar> / P\<bar> \<le> 1 / 2"
    unfolding m_def by (rule round_half_even_error)
  then have "\<bar>rat_of_int m - \<bar>x\<bar> / P\<bar> * P \<le> 1 / 2 * P"
    using P by (simp only: mult_right_mono less_imp_le)
  moreover have "(rat_of_int m - \<bar>x\<bar> / P) * P = rat_of_int m * P - \<bar>x\<bar>"
    using P by (simp add: field_simps)
  then have "\<bar>rat_of_int m - \<bar>x\<bar> / P\<bar> * P = \<bar>rat_of_int m * P - \<bar>x\<bar>\<bar>"
    using P abs_mult_pos [of P "rat_of_int m - \<bar>x\<bar> / P"] by simp
  ultimately have m: "\<bar>rat_of_int m * P - \<bar>x\<bar>\<bar> \<le> P / 2"
    by simp
  have "binary64 x - x = sgn x * (rat_of_int m * P - \<bar>x\<bar>)"
    by (simp add: b right_diff_distrib mult_sgn_abs)
  then have "\<bar>binary64 x - x\<bar> = \<bar>rat_of_int m * P - \<bar>x\<bar>\<bar>"
    using False by (simp add: abs_mult abs_sgn_eq del: abs_abs)
  with m Ple show ?thesis
    by simp
qed

lemma binary64_of_int:
  assumes "\<bar>i\<bar> < 2 ^ 53"
  shows "binary64 (rat_of_int i) = rat_of_int i"
proof (cases "i = 0")
  case True
  then show ?thesis by (simp add: binary64_def)
next
  case False
  define k where "k = binary64_exponent \<bar>rat_of_int i\<bar>"
  from False have a: "0 < \<bar>rat_of_int i\<bar>"
    by simp
  have lo: "2 ^ 52 \<le> \<bar>rat_of_int i\<bar> / 2 powi k"
    unfolding k_def by (rule binary64_exponent_bracket(1) [OF a])
  have up: "\<bar>rat_of_int i\<bar> < 2 ^ 53"
    using assms by (metis of_int_abs of_int_less_iff of_int_numeral of_int_power)
  have k: "k \<le> 0"
  proof (rule ccontr)
    assume "\<not> k \<le> 0"
    then have "1 \<le> k" by simp
    then have "(2::rat) powi 1 \<le> 2 powi k"
      by (intro power_int_increasing) simp_all
    then have "(2::rat) \<le> 2 powi k"
      by simp
    moreover have "(0::rat) < 2 powi k"
      by (simp add: power_int_def)
    ultimately have "\<bar>rat_of_int i\<bar> / 2 powi k \<le> \<bar>rat_of_int i\<bar> / 2"
      by (intro divide_left_mono) simp_all
    with lo up show False
      by simp
  qed
  then have pk: "(2::rat) powi k = 1 / 2 ^ nat (- k)"
    by (cases "k = 0") (simp_all add: power_int_def field_simps)
  have y: "\<bar>rat_of_int i\<bar> / 2 powi k = rat_of_int (\<bar>i\<bar> * 2 ^ nat (- k))"
    by (simp add: pk)
  have "binary64 (rat_of_int i)
          = sgn (rat_of_int i) * rat_of_int (\<bar>i\<bar> * 2 ^ nat (- k)) * (2 powi k)"
    using False unfolding binary64_def Let_def k_def [symmetric] y round_half_even_of_int
    by simp
  also have "\<dots> = sgn (rat_of_int i) * \<bar>rat_of_int i\<bar>"
    by (simp add: pk)
  also have "\<dots> = rat_of_int i"
    by (simp add: mult_sgn_abs)
  finally show ?thesis .
qed

lemma js_sum_exact:
  assumes "\<forall>g\<in>set gs. \<bar>g\<bar> \<le> B" and "\<bar>z\<bar> + B * int (length gs) < 2 ^ 53"
  shows "foldl js_add (rat_of_int z) (map rat_of_int gs) = rat_of_int (z + sum_list gs)"
  using assms
proof (induction gs arbitrary: z)
  case Nil
  then show ?case by simp
next
  case (Cons g gs)
  from Cons.prems have g: "\<bar>g\<bar> \<le> B" and B: "0 \<le> B"
    by auto
  with Cons.prems(2) have "\<bar>z + g\<bar> + B * int (length gs) < 2 ^ 53"
    by (simp add: algebra_simps)
  moreover have "0 \<le> B * int (length gs)"
    using B by simp
  with calculation have "\<bar>z + g\<bar> < 2 ^ 53"
    by linarith
  then have "js_add (rat_of_int z) (rat_of_int g) = rat_of_int (z + g)"
    unfolding js_add_def of_int_add [symmetric] by (rule binary64_of_int)
  ultimately show ?case
    using Cons.IH [of "z + g"] Cons.prems(1) by (simp add: add.assoc)
qed

lemma avgGrade_binary64:
  assumes "\<forall>g\<in>set gs. int4 g" and "length gs < 2 ^ 22" and "gs \<noteq> []"
  shows "avgGrade gs = Some (binary64 (arithmetic_mean gs))"
proof -
  have b: "\<forall>g\<in>set gs. \<bar>g\<bar> \<le> 2 ^ 31"
    using assms(1) by (auto simp: int4_def)
  have "(2::int) ^ 31 * int (length gs) < 2 ^ 31 * 2 ^ 22"
    using assms(2) by (simp add: of_nat_less_numeral_power_cancel_iff)
  then have "\<bar>0::int\<bar> + 2 ^ 31 * int (length gs) < 2 ^ 53"
    by simp
  from js_sum_exact [OF b this]
  have "foldl js_add 0 (map rat_of_int gs) = rat_of_int (sum_list gs)"
    by simp
  with assms(3) show ?thesis
    by (simp add: avgGrade_def js_div_def arithmetic_mean_def)
qed

lemma avgGrade_None: "avgGrade gs = None \<longleftrightarrow> gs = []"
  by (simp add: avgGrade_def)

section \<open>Progress\<close>

lemma grades_graded:
  "map (\<lambda>s. the (sub_grade s)) (filter (\<lambda>s. sub_grade s \<noteq> None) ss) = graded_grades ss"
  by (induction ss) (auto simp: graded_grades_def)

lemma enrolled_course_assignments_visible:
  assumes "e \<in> set (enrollments d)" and "enr_student_id e = pid u"
  shows "filter (\<lambda>a. asg_course_id a = enr_course_id e) (visible_assignments d u)
           = filter (\<lambda>a. asg_course_id a = enr_course_id e) (assignments d)"
proof -
  have "assignments_select d u a" if "asg_course_id a = enr_course_id e" for a
  proof -
    have "e \<in> set (filter (\<lambda>e. enr_student_id e = auth_uid u) (visible_enrollments d u))"
      using assms
      by (simp add: visible_enrollments_def enrollments_select_def
          students_can_view_their_own_enrollments_def auth_uid_def)
    then have "students_can_view_assignments_for_enrolled_courses d u a"
      unfolding students_can_view_assignments_for_enrolled_courses_def
      using that by (metis image_eqI set_map)
    then show ?thesis
      by (simp add: assignments_select_def)
  qed
  then show ?thesis
    unfolding visible_assignments_def filter_filter
    by (intro filter_cong) auto
qed

lemma own_submissions_visible:
  "filter (\<lambda>s. sub_student_id s = pid u \<and> P s) (visible_submissions d u)
     = filter (\<lambda>s. sub_student_id s = pid u \<and> P s) (submissions d)"
  unfolding visible_submissions_def filter_filter
  by (intro filter_cong)
    (auto simp: submissions_select_def students_can_view_their_own_submissions_def auth_uid_def)

lemma courseProgress_fields:
  assumes "e \<in> set (enrollments d)" and "enr_student_id e = pid u"
  shows "submitted_assignments (courseProgress d u e c)
           = length (student_course_submissions d (pid u) (enr_course_id e))"
    and "average_grade (courseProgress d u e c)
           = avgGrade (graded_grades (student_course_submissions d (pid u) (enr_course_id e)))"
  unfolding courseProgress_def Let_def enrolled_course_assignments_visible [OF assms]
    own_submissions_visible grades_graded student_course_submissions_def
  by simp_all

lemma progress_loop_Some:
  "progress_loop d u es = Some ps \<Longrightarrow>
   list_all2 (\<lambda>e pr. \<exists>c. pr = courseProgress d u e c) es ps"
proof (induction es arbitrary: ps)
  case Nil
  then show ?case by simp
next
  case (Cons e es)
  then show ?case
    by (auto split: option.splits)
qed

lemma progress_loop_total:
  "\<forall>e\<in>set es. enr_course_id e \<in> set (map crs_id (courses d)) \<Longrightarrow>
   \<exists>ps. progress_loop d u es = Some ps"
proof (induction es)
  case Nil
  then show ?case by simp
next
  case (Cons e es)
  then obtain ps where ps: "progress_loop d u es = Some ps"
    by auto
  from Cons.prems obtain c where "c \<in> set (courses d)" "crs_id c = enr_course_id e"
    by auto
  then have "find (\<lambda>c. crs_id c = enr_course_id e) (visible_courses d u) \<noteq> None"
    by (auto simp: find_None_iff visible_courses_def courses_select_def)
  with ps show ?case
    by auto
qed

lemma graded_grades_empty_iff:
  "graded_grades ss = [] \<longleftrightarrow> list_all (\<lambda>s. sub_grade s = None) ss"
  by (induction ss) (auto simp: graded_grades_def split: option.splits)

text \<open>
  C10, as the page computes it: when \<^verbatim>\<open>fetchAnalytics\<close> sets the progress, it has one
  entry for each enrollment of the user, in order. In the entry of a course,
  \<open>submitted_assignments\<close> counts all the user's submissions for the assignments of
  the course, and \<open>average_grade\<close> is null exactly when none of them has a grade.
  Otherwise, for fewer than \<open>2\<^sup>2\<^sup>2\<close> grades that fit \<^verbatim>\<open>INTEGER\<close>, it is the double
  nearest to the arithmetic mean of the non-null grades, which is within the
  \<open>2\<^sup>5\<^sup>3\<close>th part of the mean. The page does set the progress when every
  enrollment's course exists, as the foreign key has it.
\<close>

theorem analytics_progress:
  "(fetchAnalytics d (Some u) = SetProgress ps \<longrightarrow>
      length ps = length (filter (\<lambda>e. enr_student_id e = pid u) (enrollments d))
      \<and> (\<forall>i<length ps.
           let courseId = enr_course_id
                            (filter (\<lambda>e. enr_student_id e = pid u) (enrollments d) ! i);
               subs = student_course_submissions d (pid u) courseId;
               gs = graded_grades subs
           in submitted_assignments (ps ! i) = length subs
              \<and> (average_grade (ps ! i) = None) = list_all (\<lambda>s. sub_grade s = None) subs
              \<and> (\<not> list_all (\<lambda>s. sub_grade s = None) subs
                  \<and> list_all int4 gs \<and> length gs < 2 ^ 22
                  \<longrightarrow> average_grade (ps ! i) = Some (binary64 (arithmetic_mean gs))
                    \<and> \<bar>binary64 (arithmetic_mean gs) - arithmetic_mean gs\<bar>
                        \<le> \<bar>arithmetic_mean gs\<bar> / 2 ^ 53)))
   \<and> ((\<forall>e\<in>set (enrollments d). enr_course_id e \<in> set (map crs_id (courses d)))
        \<longrightarrow> (\<exists>qs. fetchAnalytics d (Some u) = SetProgress qs))"
proof (intro conjI impI)
  let ?es = "filter (\<lambda>e. enr_student_id e = pid u) (enrollments d)"
  have es: "filter (\<lambda>e. enr_student_id e = pid u) (visible_enrollments d u) = ?es"
    unfolding visible_enrollments_def filter_filter
    by (intro filter_cong)
      (auto simp: enrollments_select_def students_can_view_their_own_enrollments_def
        auth_uid_def)
  {
    assume "fetchAnalytics d (Some u) = SetProgress ps"
    then have "progress_loop d u ?es = Some ps"
      by (simp add: fetchAnalytics_def es split: option.splits)
    from progress_loop_Some [OF this]
    have l2: "list_all2 (\<lambda>e pr. \<exists>c. pr = courseProgress d u e c) ?es ps" .
    then show len: "length ps = length ?es"
      by (simp add: list_all2_lengthD)
    show "\<forall>i<length ps.
           let courseId = enr_course_id (?es ! i);
               subs = student_course_submissions d (pid u) courseId;
               gs = graded_grades subs
           in submitted_assignments (ps ! i) = length subs
              \<and> (average_grade (ps ! i) = None) = list_all (\<lambda>s. sub_grade s = None) subs
              \<and> (\<not> list_all (\<lambda>s. sub_grade s = None) subs
                  \<and> list_all int4 gs \<and> length gs < 2 ^ 22
                  \<longrightarrow> average_grade (ps ! i) = Some (binary64 (arithmetic_mean gs))
                    \<and> \<bar>binary64 (arithmetic_mean gs) - arithmetic_mean gs\<bar>
                        \<le> \<bar>arithmetic_mean gs\<bar> / 2 ^ 53)"
    proof (intro allI impI)
      fix i assume i: "i < length ps"
      with len have "?es ! i \<in> set ?es"
        by (simp only: nth_mem)
      then have e: "?es ! i \<in> set (enrollments d)" "enr_student_id (?es ! i) = pid u"
        by simp_all
      let ?subs = "student_course_submissions d (pid u) (enr_course_id (?es ! i))"
      let ?gs = "graded_grades ?subs"
      from l2 i obtain c where "ps ! i = courseProgress d u (?es ! i) c"
        by (auto simp: list_all2_conv_all_nth)
      with courseProgress_fields [OF e, of c]
      have sub: "submitted_assignments (ps ! i) = length ?subs"
        and avg: "average_grade (ps ! i) = avgGrade ?gs"
        by simp_all
      have none: "(average_grade (ps ! i) = None) = list_all (\<lambda>s. sub_grade s = None) ?subs"
        by (simp add: avg avgGrade_None graded_grades_empty_iff)
      have mean: "average_grade (ps ! i) = Some (binary64 (arithmetic_mean ?gs))
                  \<and> \<bar>binary64 (arithmetic_mean ?gs) - arithmetic_mean ?gs\<bar>
                      \<le> \<bar>arithmetic_mean ?gs\<bar> / 2 ^ 53"
        if "\<not> list_all (\<lambda>s. sub_grade s = None) ?subs \<and> list_all int4 ?gs
            \<and> length ?gs < 2 ^ 22"
      proof -
        from that have "?gs \<noteq> []" "\<forall>g\<in>set ?gs. int4 g" "length ?gs < 2 ^ 22"
          by (simp_all add: graded_grades_empty_iff list_all_iff)
        from avgGrade_binary64 [OF this(2,3,1)]
        have "average_grade (ps ! i) = Some (binary64 (arithmetic_mean ?gs))"
          by (simp only: avg)
        then show ?thesis
          by (rule conjI [OF _ binary64_error])
      qed
      from sub none mean
      show "let courseId = enr_course_id (?es ! i);
               subs = student_course_submissions d (pid u) courseId;
               gs = graded_grades subs
           in submitted_assignments (ps ! i) = length subs
              \<and> (average_grade (ps ! i) = None) = list_all (\<lambda>s. sub_grade s = None) subs
              \<and> (\<not> list_all (\<lambda>s. sub_grade s = None) subs
                  \<and> list_all int4 gs \<and> length gs < 2 ^ 22
                  \<longrightarrow> average_grade (ps ! i) = Some (binary64 (arithmetic_mean gs))
                    \<and> \<bar>binary64 (arithmetic_mean gs) - arithmetic_mean gs\<bar>
                        \<le> \<bar>arithmetic_mean gs\<bar> / 2 ^ 53)"
        unfolding Let_def by blast
    qed
  }
  {
    assume "\<forall>e\<in>set (enrollments d). enr_course_id e \<in> set (map crs_id (courses d))"
    then have "\<forall>e\<in>set ?es. enr_course_id e \<in> set (map crs_id (courses d))"
      by simp
    from progress_loop_total [OF this, of u]
    show "\<exists>qs. fetchAnalytics d (Some u) = SetProgress qs"
      by (auto simp: fetchAnalytics_def es)
  }
qed

theorem analytics_progress_witness:
  "fetchAnalytics store4 (Some student2)
     = SetProgress [\<lparr>course_title = ''CS101'', total_assignments = 3,
                      submitted_assignments = 3,
                      average_grade = Some (6215905735693653 / 70368744177664)\<rparr>]
   \<and> graded_grades (student_course_submissions store4 (pid student2) 10) = [85, 90, 90]
   \<and> \<not> list_all (\<lambda>s. sub_grade s = None) (student_course_submissions store4 (pid student2) 10)
   \<and> length (student_course_submissions store4 (pid student2) 10) = 3
   \<and> binary64 (arithmetic_mean [85, 90, 90]) = 6215905735693653 / 70368744177664
   \<and> fetchAnalytics store4 (Some student3)
       = SetProgress [\<lparr>course_title = ''CS101'', total_assignments = 3,
                        submitted_assignments = 1, average_grade = None\<rparr>]
   \<and> list_all (\<lambda>s. sub_grade s = None) (student_course_submissions store4 (pid student3) 10)"
proof -
  let ?p2 = "\<lparr>course_title = ''CS101'', total_assignments = 3,
              submitted_assignments = 3,
              average_grade = Some (6215905735693653 / 70368744177664)\<rparr>"
  let ?p3 = "\<lparr>course_title = ''CS101'', total_assignments = 3,
              submitted_assignments = 1, average_grade = None\<rparr>"
  let ?s2 = "student_course_submissions store4 (pid student2) 10"
  let ?s3 = "student_course_submissions store4 (pid student3) 10"
  have f2: "fetchAnalytics store4 (Some student2) = SetProgress [?p2]"
    and f3: "fetchAnalytics store4 (Some student3) = SetProgress [?p3]"
    by code_simp+
  have g: "graded_grades ?s2 = [85, 90, 90]"
    by code_simp
  have "list_all int4 (graded_grades ?s2)"
    by code_simp
  moreover have "length (graded_grades ?s2) < 2 ^ 22"
    unfolding g by simp
  ultimately have r: "list_all int4 (graded_grades ?s2) \<and> length (graded_grades ?s2) < 2 ^ 22"
    by (rule conjI)
  have c2: "enr_course_id
              (filter (\<lambda>e. enr_student_id e = pid student2) (enrollments store4) ! 0) = 10"
    and c3: "enr_course_id
              (filter (\<lambda>e. enr_student_id e = pid student3) (enrollments store4) ! 0) = 10"
    by code_simp+
  have i2: "0 < length [?p2]" and i3: "0 < length [?p3]"
    by simp_all
  from analytics_progress [of store4 student2 "[?p2]", THEN conjunct1, THEN mp, OF f2,
      THEN conjunct2, THEN spec, of 0, THEN mp, OF i2]
  have 2: "submitted_assignments ?p2 = length ?s2
           \<and> (average_grade ?p2 = None) = list_all (\<lambda>s. sub_grade s = None) ?s2
           \<and> (\<not> list_all (\<lambda>s. sub_grade s = None) ?s2
               \<and> list_all int4 (graded_grades ?s2) \<and> length (graded_grades ?s2) < 2 ^ 22
                \<longrightarrow> average_grade ?p2 = Some (binary64 (arithmetic_mean (graded_grades ?s2)))
                  \<and> \<bar>binary64 (arithmetic_mean (graded_grades ?s2))
                       - arithmetic_mean (graded_grades ?s2)\<bar>
                      \<le> \<bar>arithmetic_mean (graded_grades ?s2)\<bar> / 2 ^ 53)"
    unfolding c2 Let_def nth_Cons_0 .
  from analytics_progress [of store4 student3 "[?p3]", THEN conjunct1, THEN mp, OF f3,
      THEN conjunct2, THEN spec, of 0, THEN mp, OF i3]
  have 3: "(average_grade ?p3 = None) = list_all (\<lambda>s. sub_grade s = None) ?s3"
    unfolding c3 Let_def nth_Cons_0 by (rule conjunct2 [THEN conjunct1])
  have n2: "\<not> list_all (\<lambda>s. sub_grade s = None) ?s2" and l2: "length ?s2 = 3"
    by code_simp+
  have sel2: "average_grade ?p2 = Some (6215905735693653 / 70368744177664)"
    and sel3: "average_grade ?p3 = None"
    by simp_all
  have "Some (6215905735693653 / 70368744177664)
          = Some (binary64 (arithmetic_mean [85, 90, 90]))"
    using 2 [THEN conjunct2, THEN conjunct2, THEN mp, OF conjI [OF n2 r], THEN conjunct1]
    unfolding sel2 g .
  then have m: "binary64 (arithmetic_mean [85, 90, 90]) = 6215905735693653 / 70368744177664"
    by (simp only: option.inject)
  from 3 sel3 have n3: "list_all (\<lambda>s. sub_grade s = None) ?s3"
    by blast
  from f2 g n2 l2 m f3 n3 show ?thesis
    by (intro conjI)
qed

text \<open>
  C10 as stated fails: student 2 has the grades 85, 90 and 90 in course 10. Their
  arithmetic mean is 265/3; the page's average is the double next to it,
  88.33333333333333.
\<close>

theorem average_is_a_rounded_mean:
  "fetchAnalytics store4 (Some student2)
     = SetProgress [\<lparr>course_title = ''CS101'', total_assignments = 3,
                      submitted_assignments = 3,
                      average_grade = Some (6215905735693653 / 70368744177664)\<rparr>]
   \<and> graded_grades (student_course_submissions store4 (pid student2) 10) = [85, 90, 90]
   \<and> arithmetic_mean [85, 90, 90] = 265 / 3
   \<and> (6215905735693653 / 70368744177664 :: rat) \<noteq> 265 / 3"
  by code_simp

end
